theory Spec2Isabelle
  imports Main
begin

section \<open>JavaScript values\<close>

text \<open>
  The scripts under verification are the chat front end in two generations: the legacy
  script (\<^verbatim>\<open>backend/static/script.js\<close>) and the enhanced script with mode switching,
  collections and toasts. Where both define a function of the same name, the legacy
  one is suffixed \<open>_legacy\<close> below and the enhanced one \<open>_enh\<close>.

  A value received from the backend is a parsed JSON document. Numbers are modelled as
  integers, strings as lists of 8-bit characters, an object as the list of its own
  properties in the order \<^verbatim>\<open>Object.keys\<close> enumerates them (keys distinct). Properties
  inherited from \<^verbatim>\<open>Object.prototype\<close> are not modelled: a key that is not an own
  property reads as \<^verbatim>\<open>undefined\<close>. The pictographs in the texts of the scripts are
  written as their UTF-8 bytes.
\<close>

datatype jsval =
    JUndefined
  | JNull
  | JBool bool
  | JNum int
  | JStr string
  | JArr "jsval list"
  | JObj "(string \<times> jsval) list"

text \<open>A thrown \<^verbatim>\<open>Error\<close> object; the argument is its \<^verbatim>\<open>message\<close>.\<close>

datatype thrown = Thrown string

fun message :: "thrown \<Rightarrow> string" where
  "message (Thrown m) = m"

definition dquote :: char where
  "dquote = CHR 0x22"

definition squote :: char where
  "squote = CHR 0x27"

text \<open>Truthiness, as used by \<^verbatim>\<open>!x\<close>, \<^verbatim>\<open>x || y\<close> and \<^verbatim>\<open>if (x)\<close>.\<close>

fun truthy :: "jsval \<Rightarrow> bool" where
  "truthy JUndefined = False"
| "truthy JNull = False"
| "truthy (JBool b) = b"
| "truthy (JNum n) = (n \<noteq> 0)"
| "truthy (JStr s) = (s \<noteq> [])"
| "truthy (JArr xs) = True"
| "truthy (JObj kvs) = True"

text \<open>\<^verbatim>\<open>a || b\<close> and \<^verbatim>\<open>a ?? b\<close>.\<close>

definition js_or :: "jsval \<Rightarrow> jsval \<Rightarrow> jsval" where
  "js_or a b = (if truthy a then a else b)"

fun nullish :: "jsval \<Rightarrow> bool" where
  "nullish JUndefined = True"
| "nullish JNull = True"
| "nullish v = False"

definition js_coalesce :: "jsval \<Rightarrow> jsval \<Rightarrow> jsval" where
  "js_coalesce a b = (if nullish a then b else a)"

text \<open>Decimal rendering of a non-negative integer, as \<^verbatim>\<open>String(n)\<close> prints it.\<close>

fun dec :: "nat \<Rightarrow> string" where
  "dec n = (if n < 10 then [''0123456789'' ! n]
            else dec (n div 10) @ [''0123456789'' ! (n mod 10)])"

declare dec.simps [simp del]

text \<open>\<^verbatim>\<open>Array.prototype.join\<close> on an array of strings.\<close>

fun js_join :: "string \<Rightarrow> string list \<Rightarrow> string" where
  "js_join sep [] = []"
| "js_join sep [x] = x"
| "js_join sep (x # y # ys) = x @ sep @ js_join sep (y # ys)"

text \<open>
  \<^verbatim>\<open>String(v)\<close>. An array prints its elements joined by commas, with \<^verbatim>\<open>null\<close> and
  \<^verbatim>\<open>undefined\<close> elements printed as the empty string; a plain object prints as
  \<^verbatim>\<open>[object Object]\<close>.
\<close>

fun js_String :: "jsval \<Rightarrow> string" where
  "js_String JUndefined = ''undefined''"
| "js_String JNull = ''null''"
| "js_String (JBool b) = (if b then ''true'' else ''false'')"
| "js_String (JNum n) = (if n < 0 then ''-'' @ dec (nat (- n)) else dec (nat n))"
| "js_String (JStr s) = s"
| "js_String (JArr xs) =
     js_join '','' (map (\<lambda>x. if nullish x then [] else js_String x) xs)"
| "js_String (JObj kvs) = ''[object Object]''"

text \<open>
  \<^verbatim>\<open>JSON.stringify(v, null, 2)\<close>: strings between double quotes with the JSON escapes,
  arrays and objects one entry per line, indented by two spaces per level. A property
  whose value is \<^verbatim>\<open>undefined\<close> is left out, an \<^verbatim>\<open>undefined\<close> array element prints
  as \<^verbatim>\<open>null\<close>.
\<close>

definition bslash :: char where
  "bslash = CHR 0x5C"

definition json_escape_char :: "char \<Rightarrow> string" where
  "json_escape_char c =
     (if c = dquote then [bslash, dquote]
      else if c = bslash then [bslash, bslash]
      else if c = CHR 0x08 then [bslash, CHR ''b'']
      else if c = CHR 0x0C then [bslash, CHR ''f'']
      else if c = CHR 0x0A then [bslash, CHR ''n'']
      else if c = CHR 0x0D then [bslash, CHR ''r'']
      else if c = CHR 0x09 then [bslash, CHR ''t'']
      else if (of_char c :: nat) < 32 then
        [bslash] @ ''u00'' @ [''0123456789abcdef'' ! (of_char c div 16),
                               ''0123456789abcdef'' ! (of_char c mod 16)]
      else [c])"

definition json_quote :: "string \<Rightarrow> string" where
  "json_quote s = [dquote] @ concat (map json_escape_char s) @ [dquote]"

definition json_indent :: "nat \<Rightarrow> string" where
  "json_indent lvl = replicate (2 * lvl) (CHR '' '')"

fun json_pretty :: "nat \<Rightarrow> jsval \<Rightarrow> string" where
  "json_pretty lvl JUndefined = ''null''"
| "json_pretty lvl JNull = ''null''"
| "json_pretty lvl (JBool b) = (if b then ''true'' else ''false'')"
| "json_pretty lvl (JNum n) = js_String (JNum n)"
| "json_pretty lvl (JStr s) = json_quote s"
| "json_pretty lvl (JArr xs) =
     (if xs = [] then ''[]''
      else ''[\<newline>'' @ json_indent (Suc lvl) @
           js_join ('',\<newline>'' @ json_indent (Suc lvl)) (map (json_pretty (Suc lvl)) xs) @
           ''\<newline>'' @ json_indent lvl @ '']'')"
| "json_pretty lvl (JObj kvs) =
     (if filter (\<lambda>kv. snd kv \<noteq> JUndefined) kvs = [] then ''{}''
      else ''{\<newline>'' @ json_indent (Suc lvl) @
           js_join ('',\<newline>'' @ json_indent (Suc lvl))
             (map (\<lambda>kv. json_quote (fst kv) @ '': '' @ json_pretty (Suc lvl) (snd kv))
                (filter (\<lambda>kv. snd kv \<noteq> JUndefined) kvs)) @
           ''\<newline>'' @ json_indent lvl @ ''}'')"

definition json_stringify :: "jsval \<Rightarrow> string" where
  "json_stringify v = json_pretty 0 v"

text \<open>
  \<^verbatim>\<open>Object.keys(v)\<close>: throws on \<^verbatim>\<open>null\<close> and \<^verbatim>\<open>undefined\<close>; the indices of an
  array or a string; nothing for a number or a boolean.
\<close>

definition type_error :: thrown where
  "type_error = Thrown ''Cannot convert undefined or null to object''"

fun js_keys :: "jsval \<Rightarrow> thrown + string list" where
  "js_keys JUndefined = Inl type_error"
| "js_keys JNull = Inl type_error"
| "js_keys (JBool b) = Inr []"
| "js_keys (JNum n) = Inr []"
| "js_keys (JStr s) = Inr (map dec [0..<length s])"
| "js_keys (JArr xs) = Inr (map dec [0..<length xs])"
| "js_keys (JObj kvs) = Inr (map fst kvs)"

text \<open>
  \<^verbatim>\<open>v[k]\<close> for a value that is neither \<^verbatim>\<open>null\<close> nor \<^verbatim>\<open>undefined\<close> (reading a
  property of those throws, see \<open>js_get\<close>).
\<close>

fun js_index :: "jsval \<Rightarrow> string \<Rightarrow> jsval" where
  "js_index (JObj kvs) k = (case map_of kvs k of Some v \<Rightarrow> v | None \<Rightarrow> JUndefined)"
| "js_index (JArr xs) k =
     (if k = ''length'' then JNum (int (length xs))
      else case find (\<lambda>i. dec i = k) [0..<length xs] of
             Some i \<Rightarrow> xs ! i | None \<Rightarrow> JUndefined)"
| "js_index (JStr s) k =
     (if k = ''length'' then JNum (int (length s))
      else case find (\<lambda>i. dec i = k) [0..<length s] of
             Some i \<Rightarrow> JStr [s ! i] | None \<Rightarrow> JUndefined)"
| "js_index v k = JUndefined"

definition prop_error :: "string \<Rightarrow> thrown" where
  "prop_error k = Thrown (''Cannot read properties of null (reading '' @ [squote] @ k @ [squote] @ '')'')"

definition js_get :: "jsval \<Rightarrow> string \<Rightarrow> thrown + jsval" where
  "js_get v k = (if nullish v then Inl (prop_error k) else Inr (js_index v k))"

text \<open>
  The elements of \<^verbatim>\<open>[...new Set(xs)]\<close>: duplicates removed, each element at the place
  of its first occurrence.
\<close>

fun uniq_acc :: "'a list \<Rightarrow> 'a list \<Rightarrow> 'a list" where
  "uniq_acc seen [] = []"
| "uniq_acc seen (x # xs) =
     (if x \<in> set seen then uniq_acc seen xs else x # uniq_acc (x # seen) xs)"

definition uniq :: "'a list \<Rightarrow> 'a list" where
  "uniq xs = uniq_acc [] xs"

text \<open>\<^verbatim>\<open>rows.flatMap(r => Object.keys(r))\<close>: the first row that throws aborts the walk.\<close>

fun flat_keys :: "jsval list \<Rightarrow> thrown + string list" where
  "flat_keys [] = Inr []"
| "flat_keys (r # rs) =
     (case js_keys r of
        Inl e \<Rightarrow> Inl e
      | Inr ks \<Rightarrow> (case flat_keys rs of Inl e \<Rightarrow> Inl e | Inr ks' \<Rightarrow> Inr (ks @ ks')))"

section \<open>Observable effects of a handler\<close>

text \<open>
  What a handler does to the page and the network, in the order in which it does it:
  requests, assignments to properties of elements, class changes, chat messages,
  toasts, alerts, downloads and timers. Console output, scrolling and the resizing of
  the text area are left out. A chat message is recorded with the \<^verbatim>\<open>id\<close> that
  \<open>addMessage\<close> gives to its element, its text, its type and, in the enhanced script,
  its download data; the removal of a message names the \<^verbatim>\<open>id\<close> that is looked up.
\<close>

text \<open>
  The body of a request: none, the JSON text of a value (\<^verbatim>\<open>JSON.stringify\<close> of it), or
  form data holding the selected file. A timer either reloads the collections or
  attaches the download listener for the given rows.
\<close>

datatype req_body = NoBody | JsonBody jsval | FormFile string

datatype timer_action = LoadCollections | AttachDownload "jsval list"

datatype effect =
    Fetch string string req_body
  | SetProp string string string
  | SetDisabled string bool
  | SetClass string string bool
  | ToggleClass string string
  | Click string
  | AddMessage string jsval string "jsval list option"
  | RemoveMessage string
  | ShowProcessing
  | HideProcessing
  | Toast string string
  | Alert string
  | Download string string
  | Timer nat timer_action

section \<open>CSV export\<close>

text \<open>\<^verbatim>\<open>String(val).replace(/"/g, '""')\<close>\<close>

definition double_quotes :: "string \<Rightarrow> string" where
  "double_quotes s = concat (map (\<lambda>c. if c = dquote then [dquote, dquote] else [c]) s)"

text \<open>One field: \<^verbatim>\<open>let val = row[h] ?? ''; val = String(val).replace(...); return `"${val}"`\<close>\<close>

definition csv_quote :: "string \<Rightarrow> string" where
  "csv_quote s = [dquote] @ double_quotes s @ [dquote]"

definition csv_value :: "jsval \<Rightarrow> string \<Rightarrow> string" where
  "csv_value row h = js_String (js_coalesce (js_index row h) (JStr []))"

definition csv_field :: "jsval \<Rightarrow> string \<Rightarrow> string" where
  "csv_field row h = csv_quote (csv_value row h)"

definition csv_line :: "string list \<Rightarrow> jsval \<Rightarrow> string" where
  "csv_line headers row = js_join '','' (map (csv_field row) headers)"

definition csv_text :: "string list \<Rightarrow> jsval list \<Rightarrow> string" where
  "csv_text headers data =
     js_join ''\<newline>'' (js_join '','' headers # map (csv_line headers) data)"

definition csv_filename :: "int \<Rightarrow> string" where
  "csv_filename now = ''query_results_'' @ js_String (JNum now) @ ''.csv''"

text \<open>
  \<open>downloadCSV\<close> of the legacy script. The argument is the array handed over by
  \<open>formatResults\<close>; \<open>now\<close> is \<^verbatim>\<open>Date.now()\<close>. The header is
  \<^verbatim>\<open>Object.keys(data[0])\<close>. Reading a property of a \<^verbatim>\<open>null\<close> row throws.
\<close>

definition downloadCSV_legacy :: "int \<Rightarrow> jsval list \<Rightarrow> thrown + effect list" where
  "downloadCSV_legacy now data =
     (if data = [] then Inr [Alert ''No data to export.'']
      else case js_keys (hd data) of
             Inl e \<Rightarrow> Inl e
           | Inr headers \<Rightarrow>
               if headers \<noteq> [] \<and> list_ex nullish data then Inl (prop_error (hd headers))
               else Inr [Download (csv_filename now) (csv_text headers data)])"

text \<open>
  \<open>downloadCSV\<close> of the enhanced script: the header is
  \<^verbatim>\<open>[...new Set(data.flatMap(r => Object.keys(r)))]\<close>.
\<close>

definition downloadCSV_enh :: "int \<Rightarrow> jsval list \<Rightarrow> thrown + effect list" where
  "downloadCSV_enh now data =
     (if data = [] then Inr [Toast ''No data to export.'' ''error'']
      else case flat_keys data of
             Inl e \<Rightarrow> Inl e
           | Inr ks \<Rightarrow>
               Inr [Download (csv_filename now) (csv_text (uniq ks) data),
                    Toast ''CSV downloaded successfully!'' ''success''])"

subsection \<open>Reference reader for one CSV record\<close>

text \<open>
  The scripts write CSV and never read it. This reader is the reference side of the
  round trip, after the usual quoted-field grammar (RFC 4180): fields are separated by
  commas, a field that starts with a double quote runs to the closing double quote, and
  inside it two double quotes stand for one. A bare double quote or line break in an
  unquoted field, text after a closing quote and an unterminated quoted field are
  malformed. An empty record has no fields.
\<close>

datatype csv_state = FieldStart | Unquoted | Quoted | QuoteSeen

fun csv_run :: "csv_state \<Rightarrow> string \<Rightarrow> string list \<Rightarrow> string \<Rightarrow> string list option" where
  "csv_run st cur out [] = (if st = Quoted then None else Some (out @ [cur]))"
| "csv_run FieldStart cur out (c # cs) =
     (if c = dquote then csv_run Quoted [] out cs
      else if c = CHR '','' then csv_run FieldStart [] (out @ [[]]) cs
      else if c = CHR 0x0A \<or> c = CHR 0x0D then None
      else csv_run Unquoted [c] out cs)"
| "csv_run Unquoted cur out (c # cs) =
     (if c = CHR '','' then csv_run FieldStart [] (out @ [cur]) cs
      else if c = dquote \<or> c = CHR 0x0A \<or> c = CHR 0x0D then None
      else csv_run Unquoted (cur @ [c]) out cs)"
| "csv_run Quoted cur out (c # cs) =
     (if c = dquote then csv_run QuoteSeen cur out cs
      else csv_run Quoted (cur @ [c]) out cs)"
| "csv_run QuoteSeen cur out (c # cs) =
     (if c = dquote then csv_run Quoted (cur @ [dquote]) out cs
      else if c = CHR '','' then csv_run FieldStart [] (out @ [cur]) cs
      else None)"

definition csv_read_record :: "string \<Rightarrow> string list option" where
  "csv_read_record s = (if s = [] then Some [] else csv_run FieldStart [] [] s)"

section \<open>HTML escaping\<close>

text \<open>\<^verbatim>\<open>s.replace(/c/g, r)\<close> for a single character \<open>c\<close>.\<close>

definition replace_char :: "char \<Rightarrow> string \<Rightarrow> string \<Rightarrow> string" where
  "replace_char c r s = concat (map (\<lambda>x. if x = c then r else [x]) s)"

text \<open>
  \<open>escapeHtml\<close> of the legacy script: \<^verbatim>\<open>null\<close> and \<^verbatim>\<open>undefined\<close> give the empty
  string, anything else is stringified and passed through five replacements, the
  ampersand first.
\<close>

definition escapeHtml_legacy :: "jsval \<Rightarrow> string" where
  "escapeHtml_legacy v =
     (if nullish v then []
      else replace_char squote ''&#39;''
            (replace_char dquote ''&quot;''
              (replace_char (CHR ''>'') ''&gt;''
                (replace_char (CHR ''<'') ''&lt;''
                  (replace_char (CHR ''&'') ''&amp;'' (js_String v))))))"

text \<open>The five replacements, seen on one character of the stringified value.\<close>

definition escape_char_legacy :: "char \<Rightarrow> string" where
  "escape_char_legacy c =
     (if c = CHR ''&'' then ''&amp;''
      else if c = CHR ''<'' then ''&lt;''
      else if c = CHR ''>'' then ''&gt;''
      else if c = dquote then ''&quot;''
      else if c = squote then ''&#39;''
      else [c])"

text \<open>
  \<open>escapeHtml\<close> of the enhanced script assigns the string to the \<^verbatim>\<open>textContent\<close> of
  a fresh \<^verbatim>\<open>div\<close> and reads \<^verbatim>\<open>innerHTML\<close> back. The element then holds one text
  node, which the browser serialises by the HTML fragment serialisation algorithm for
  text: \<^verbatim>\<open>&\<close> becomes \<^verbatim>\<open>&amp;\<close>, the no-break space (code 0xA0) \<^verbatim>\<open>&nbsp;\<close>,
  \<^verbatim>\<open><\<close> becomes \<^verbatim>\<open>&lt;\<close> and \<^verbatim>\<open>>\<close> becomes \<^verbatim>\<open>&gt;\<close>. Quotes are escaped in
  attribute values only, and so stay as they are here.
\<close>

definition dom_escape_char :: "char \<Rightarrow> string" where
  "dom_escape_char c =
     (if c = CHR ''&'' then ''&amp;''
      else if c = CHR 0xA0 then ''&nbsp;''
      else if c = CHR ''<'' then ''&lt;''
      else if c = CHR ''>'' then ''&gt;''
      else [c])"

definition dom_text_innerHTML :: "string \<Rightarrow> string" where
  "dom_text_innerHTML s = concat (map dom_escape_char s)"

definition escapeHtml_enh :: "jsval \<Rightarrow> string" where
  "escapeHtml_enh v = (if nullish v then [] else dom_text_innerHTML (js_String v))"

text \<open>
  The five entities the legacy \<open>escapeHtml\<close> writes, and the check that every ampersand
  of a string starts one of them.
\<close>

definition entities :: "string list" where
  "entities = [''&amp;'', ''&lt;'', ''&gt;'', ''&quot;'', ''&#39;'']"

fun starts_with :: "string \<Rightarrow> string \<Rightarrow> bool" where
  "starts_with s [] = True"
| "starts_with [] (p # ps) = False"
| "starts_with (c # cs) (p # ps) = (c = p \<and> starts_with cs ps)"

fun amp_ok :: "string \<Rightarrow> bool" where
  "amp_ok [] = True"
| "amp_ok (c # cs) =
     ((if c = CHR ''&'' then list_ex (starts_with (c # cs)) entities else True) \<and> amp_ok cs)"

section \<open>Result tables\<close>

subsection \<open>Legacy renderer\<close>

definition download_button_legacy :: string where
  \<open>download_button_legacy =
     ''\<newline>      <div style="margin-top:10px; text-align:righ'' @
     ''t;">\<newline>        <button class="download-csv" style="\<newline> '' @
     ''         background:#5e81f4;\<newline>          color:#fff;\<newline> '' @
     ''         border:none;\<newline>          border-radius:8px;\<newline> '' @
     ''         padding:6px 12px;\<newline>          font-size:0.85'' @
     ''rem;\<newline>          cursor:pointer;\<newline>          t'' @
     ''ransition:all 0.2s ease;\<newline>        ">'' @
     [CHR 0xE2, CHR 0xAC, CHR 0x87, CHR 0xEF, CHR 0xB8, CHR 0x8F] @
     '' Download as CSV</button>\<newline>      </div>''\<close>

text \<open>
  \<open>formatResults\<close> of the legacy script, for the array \<open>results\<close>. The columns are
  \<^verbatim>\<open>[...new Set(results.flatMap(r => Object.keys(r)))]\<close>. The function also sets a
  50 ms timer that attaches the download listener for \<open>rawData\<close>; the caller's model
  lists that effect.
\<close>

definition th_legacy :: "string \<Rightarrow> string" where
  "th_legacy k = ''<th>'' @ escapeHtml_legacy (JStr k) @ ''</th>''"

definition td_legacy :: "jsval \<Rightarrow> string \<Rightarrow> string" where
  "td_legacy r k = ''<td>'' @ escapeHtml_legacy (js_index r k) @ ''</td>''"

definition tr_legacy :: "string list \<Rightarrow> jsval \<Rightarrow> string" where
  "tr_legacy keys r = ''<tr>'' @ concat (map (td_legacy r) keys) @ ''</tr>''"

definition table_legacy :: "string list \<Rightarrow> jsval list \<Rightarrow> jsval \<Rightarrow> string" where
  \<open>table_legacy keys results summary =
     ''<div class="result-summary">'' @ escapeHtml_legacy summary @ ''</div>'' @
     ''<table><tr>'' @ concat (map th_legacy keys) @ ''</tr>'' @
     concat (map (tr_legacy keys) results) @
     ''</table>'' @
     download_button_legacy\<close>

definition formatResults_legacy :: "jsval list \<Rightarrow> jsval \<Rightarrow> thrown + string" where
  "formatResults_legacy results summary =
     (if results = [] then Inr ''No results found.''
      else case flat_keys results of
             Inl e \<Rightarrow> Inl e
           | Inr ks \<Rightarrow> Inr (table_legacy (uniq ks) results summary))"

subsection \<open>Enhanced renderer\<close>

text \<open>
  \<open>truncateText\<close>. \<^verbatim>\<open>str.substring(0, maxLength)\<close> takes a negative bound as 0.
\<close>

definition truncateText :: "jsval \<Rightarrow> int \<Rightarrow> string" where
  "truncateText text maxLength =
     (if \<not> truthy text then []
      else let str = js_String text
           in if int (length str) \<le> maxLength then str
              else take (nat maxLength) str @ ''...'')"

definition excludeKeys :: "string list" where
  "excludeKeys = [''_id'', ''_source'']"

text \<open>
  The column order computed at the head of \<open>formatResults\<close>, from the deduplicated
  keys.
\<close>

definition orderedKeys :: "string list \<Rightarrow> string list" where
  "orderedKeys keys =
     (let ordered0 = filter (\<lambda>k. k \<noteq> ''_source'' \<and> k \<noteq> ''ai_summary'' \<and> k \<noteq> ''Link'' \<and> k \<noteq> ''_id'') keys;
          ordered1 = (if ''_collection'' \<in> set keys
                      then ''_collection'' # filter (\<lambda>k. k \<noteq> ''_collection'') ordered0
                      else ordered0);
          ordered2 = (if ''ai_summary'' \<in> set keys then ordered1 @ [''ai_summary''] else ordered1)
      in if ''Link'' \<in> set keys then ordered2 @ [''Link''] else ordered2)"

text \<open>
  \<^verbatim>\<open>[...new Set(results.flatMap(r => Object.keys(r).filter(k => !excludeKeys.includes(k))))]\<close>
\<close>

fun flat_keys_excl :: "jsval list \<Rightarrow> thrown + string list" where
  "flat_keys_excl [] = Inr []"
| "flat_keys_excl (r # rs) =
     (case js_keys r of
        Inl e \<Rightarrow> Inl e
      | Inr ks \<Rightarrow>
          (case flat_keys_excl rs of
             Inl e \<Rightarrow> Inl e
           | Inr ks' \<Rightarrow> Inr (filter (\<lambda>k. k \<notin> set excludeKeys) ks @ ks')))"

definition columns_enh :: "jsval list \<Rightarrow> thrown + string list" where
  "columns_enh results =
     (case flat_keys_excl results of
        Inl e \<Rightarrow> Inl e
      | Inr ks \<Rightarrow> Inr (orderedKeys (uniq ks)))"

definition getColumnWidth :: "string \<Rightarrow> string" where
  "getColumnWidth key =
     (if key = ''_collection'' then ''120px''
      else if key = ''Link'' then ''150px''
      else if key = ''Year'' \<or> key = ''Date'' then ''100px''
      else if key = ''Title'' \<or> key = ''Name'' then ''200px''
      else if key = ''Abstract'' \<or> key = ''Description'' \<or> key = ''ai_summary'' then ''300px''
      else if key = ''Inventor'' \<or> key = ''Assignee'' \<or> key = ''Organization'' then ''180px''
      else ''150px'')"

definition headerStyle :: "string \<Rightarrow> string" where
  "headerStyle k =
     (if k = ''_collection'' \<or> k = ''ai_summary'' \<or> k = ''Link''
      then ''background: var(--gradient-accent); color: white;''
      else ''background: var(--input-bg);'')"

definition th_enh :: "string \<Rightarrow> string" where
  \<open>th_enh k =
     ''<th style="'' @
     headerStyle k @
     '' padding: 0.5rem 0.75rem; border: 1px solid var(--border-col'' @
     ''or); text-align: left; font-weight: 600; font-size: 0.85rem;'' @
     '' white-space: nowrap; width: '' @
     getColumnWidth k @
     ''; min-width: '' @
     getColumnWidth k @
     ''; max-width: '' @
     getColumnWidth k @
     '';">'' @
     escapeHtml_enh (JStr k) @
     ''</th>''\<close>

definition isLongField :: "string \<Rightarrow> bool" where
  "isLongField k = (k \<in> set [''Title'', ''Name'', ''Inventor'', ''Assignee'', ''Organization''])"

definition wrapStyle :: "string \<Rightarrow> string" where
  "wrapStyle k =
     (if k = ''Abstract'' \<or> k = ''Description'' \<or> k = ''ai_summary'' \<or> isLongField k
      then ''white-space: normal; word-wrap: break-word;''
      else ''white-space: nowrap; overflow: hidden; text-overflow: ellips'' @
           ''is;'')"

text \<open>\<^verbatim>\<open>typeof v === 'object'\<close>\<close>

fun is_object :: "jsval \<Rightarrow> bool" where
  "is_object JNull = True"
| "is_object (JArr xs) = True"
| "is_object (JObj kvs) = True"
| "is_object v = False"

record cell =
  titleAttr :: string
  cellStyle :: string
  cellContent :: string

definition na_span :: string where
  \<open>na_span =
     ''<span style="color: var(--text-secondary); font-style: itali'' @
     ''c;">N/A</span>''\<close>

definition link_html :: "string \<Rightarrow> string" where
  \<open>link_html linkText =
     ''<a href="'' @
     escapeHtml_enh (JStr linkText) @
     ''" target="_blank" rel="noopener noreferrer" style="color: va'' @
     ''r(--accent-light); text-decoration: underline; white-space: '' @
     ''nowrap;">View</a>''\<close>

definition title_attr :: "string \<Rightarrow> string" where
  \<open>title_attr s = ''title="'' @ escapeHtml_enh (JStr s) @ ''"''\<close>

text \<open>
  A truncated cell: the escaped text cut at \<open>maxLen\<close>, with the full text as tooltip
  when it was cut.
\<close>

definition truncated_cell :: "string \<Rightarrow> nat \<Rightarrow> string \<Rightarrow> cell" where
  "truncated_cell text maxLen style =
     \<lparr>titleAttr = (if length text > maxLen then title_attr text else []),
      cellStyle = style,
      cellContent = escapeHtml_enh (JStr (truncateText (JStr text) (int maxLen)))\<rparr>"

text \<open>
  The body of the inner loop of \<open>formatResults\<close>: the cell of row \<open>r\<close> in column
  \<open>k\<close>. \<^verbatim>\<open>JSON.stringify\<close> does not throw on a parsed JSON value, so the
  \<^verbatim>\<open>catch\<close> of the object branch is never entered.
\<close>

definition collection_style :: string where
  "collection_style =
     ''background: rgba(99, 102, 241, 0.1); font-weight: 600; color'' @
     '': var(--accent-light); white-space: nowrap;''"

definition summary_style :: string where
  "summary_style =
     ''font-style: italic; color: var(--text-secondary); line-heigh'' @
     ''t: 1.4; white-space: normal; word-wrap: break-word;''"

definition abstract_style :: string where
  "abstract_style =
     ''line-height: 1.4; white-space: normal; word-wrap: break-word'' @
     '';''"

definition json_style :: string where
  "json_style =
     ''font-family: var(--font-mono); font-size: 0.8rem; white-spac'' @
     ''e: normal; word-wrap: break-word;''"

definition long_field_style :: string where
  "long_field_style =
     ''white-space: normal; word-wrap: break-word;''"

definition formatCell :: "jsval \<Rightarrow> string \<Rightarrow> cell" where
  "formatCell r k =
     (let c = js_index r k
      in if nullish c \<or> c = JStr [] then
           \<lparr>titleAttr = [], cellStyle = [], cellContent = na_span\<rparr>
         else if k = ''Link'' \<and> truthy c then
           \<lparr>titleAttr = [], cellStyle = [], cellContent = link_html (js_String c)\<rparr>
         else if k = ''_collection'' then
           \<lparr>titleAttr = [], cellStyle = collection_style,
            cellContent = escapeHtml_enh (JStr (js_String c))\<rparr>
         else if k = ''ai_summary'' \<and> truthy c then
           truncated_cell (js_String c) 250 summary_style
         else if k = ''Abstract'' \<or> k = ''Description'' then
           truncated_cell (js_String c) 250 abstract_style
         else if is_object c then
           truncated_cell (json_stringify c) 150 json_style
         else
           truncated_cell (js_String c) (if isLongField k then 80 else 50)
             (if isLongField k then long_field_style else []))"

text \<open>
  The bound that the branch taken for a truncated cell passes to \<open>truncateText\<close>, by
  column and kind of value.
\<close>

definition cell_budget :: "jsval \<Rightarrow> string \<Rightarrow> nat" where
  "cell_budget c k =
     (if k = ''ai_summary'' \<or> k = ''Abstract'' \<or> k = ''Description'' then 250
      else if is_object c then 150
      else if isLongField k then 80
      else 50)"

definition td_enh :: "jsval \<Rightarrow> string \<Rightarrow> string" where
  \<open>td_enh r k =
     (let c = formatCell r k
      in ''<td '' @
         titleAttr c @
         '' style="'' @
         cellStyle c @
         '' '' @
         wrapStyle k @
         '' padding: 0.5rem 0.75rem; border: 1px solid var(--border-col'' @
         ''or); width: '' @
         getColumnWidth k @
         ''; min-width: '' @
         getColumnWidth k @
         ''; max-width: '' @
         getColumnWidth k @
         ''; vertical-align: top;">'' @
         cellContent c @
         ''</td>'')\<close>

definition tr_enh :: "string list \<Rightarrow> jsval \<Rightarrow> string" where
  "tr_enh cols r = ''<tr>'' @ concat (map (td_enh r) cols) @ ''</tr>''"

definition download_button_enh :: string where
  \<open>download_button_enh =
     ''\<newline>            <div style="margin-top: 1rem; text-ali'' @
     ''gn: right;">\<newline>                <button class="downloa'' @
     ''d-csv" style="\<newline>                    background: var('' @
     ''--gradient-accent);\<newline>                    color: whit'' @
     ''e;\<newline>                    border: none;\<newline>     '' @
     ''               border-radius: 0.5rem;\<newline>             '' @
     ''       padding: 0.75rem 1.5rem;\<newline>                   '' @
     '' font-size: 0.9rem;\<newline>                    font-weight'' @
     '': 600;\<newline>                    cursor: pointer;\<newline> '' @
     ''                   transition: all 0.3s ease;\<newline>     '' @
     ''               box-shadow: 0 4px 12px rgba(99, 102, 241, 0.3'' @
     '');\<newline>                ">'' @
     [CHR 0xE2, CHR 0xAC, CHR 0x87, CHR 0xEF, CHR 0xB8, CHR 0x8F] @
     '' Download as CSV</button>\<newline>            </div>''\<close>

subsection \<open>The enhanced table\<close>

text \<open>
  White space as \<^verbatim>\<open>trim\<close> sees it, among the characters of one byte: tab, line feed,
  vertical tab, form feed, carriage return, space, no-break space.
\<close>

definition js_whitespace :: "char \<Rightarrow> bool" where
  "js_whitespace c =
     (c \<in> set [CHR 0x09, CHR 0x0A, CHR 0x0B, CHR 0x0C, CHR 0x0D, CHR 0x20, CHR 0xA0])"

text \<open>\<^verbatim>\<open>s.trim()\<close>\<close>

definition trim :: "string \<Rightarrow> string" where
  "trim s = rev (dropWhile js_whitespace (rev (dropWhile js_whitespace s)))"

text \<open>
  \<^verbatim>\<open>x > 0\<close> for the value of a \<^verbatim>\<open>length\<close> property. Arrays and strings have a numeric
  length; the other cases arise only for an object with an own property of that name.
  A string is compared through the number it denotes: surrounding white space is
  dropped; what remains is a hexadecimal, octal or binary integer with its prefix
  (no sign), or an optionally signed decimal literal (digits, a fraction, an exponent),
  or an optionally signed \<^verbatim>\<open>Infinity\<close>; the empty string is 0 and anything else is
  \<^verbatim>\<open>NaN\<close>, which compares false. A decimal literal is positive when it has no minus
  sign, a digit other than zero in its mantissa, and a value above \<open>2\<close> to the power
  \<open>-1075\<close>: up to that bound the nearest double is zero.
\<close>

definition is_digit :: "char \<Rightarrow> bool" where
  "is_digit c = (c \<in> set ''0123456789'')"

definition digits_value :: "string \<Rightarrow> int" where
  "digits_value ds = foldl (\<lambda>n c. 10 * n + (of_char c - 48)) 0 ds"

text \<open>The exponent part of a decimal literal, which may be absent.\<close>

definition exponent_of :: "string \<Rightarrow> int option" where
  "exponent_of s =
     (case s of
        [] \<Rightarrow> Some 0
      | c # r \<Rightarrow>
          if c = CHR ''e'' \<or> c = CHR ''E'' then
            (let body = (case r of
                           [] \<Rightarrow> []
                         | d # ds \<Rightarrow> if d = CHR ''-'' \<or> d = CHR ''+'' then ds else d # ds)
             in if body \<noteq> [] \<and> list_all is_digit body
                then Some (if starts_with r ''-'' then - digits_value body
                           else digits_value body)
                else None)
          else None)"

text \<open>
  An unsigned decimal literal: \<^verbatim>\<open>digits\<close>, \<^verbatim>\<open>digits.\<close>, \<^verbatim>\<open>digits.digits\<close> or
  \<^verbatim>\<open>.digits\<close>, then the exponent part.
\<close>

definition decimal_positive :: "string \<Rightarrow> bool" where
  "decimal_positive u =
     (let intPart = takeWhile is_digit u;
          r1 = dropWhile is_digit u;
          dot = starts_with r1 ''.'';
          fracPart = (if dot then takeWhile is_digit (tl r1) else []);
          r2 = (if dot then dropWhile is_digit (tl r1) else r1)
      in (intPart \<noteq> [] \<or> fracPart \<noteq> []) \<and>
         (case exponent_of r2 of
            None \<Rightarrow> False
          | Some e \<Rightarrow>
              0 < digits_value (intPart @ fracPart) \<and>
              (if 0 \<le> e - int (length fracPart) then True
               else 10 ^ nat (int (length fracPart) - e)
                      < digits_value (intPart @ fracPart) * 2 ^ 1075)))"

definition radix_positive :: "string \<Rightarrow> string \<Rightarrow> bool" where
  "radix_positive digits body =
     (body \<noteq> [] \<and> list_all (\<lambda>c. c \<in> set digits) body \<and> list_ex (\<lambda>c. c \<noteq> CHR ''0'') body)"

definition str_positive :: "string \<Rightarrow> bool" where
  "str_positive s =
     (let t = trim s
      in if starts_with t ''0x'' \<or> starts_with t ''0X''
         then radix_positive ''0123456789abcdefABCDEF'' (drop 2 t)
         else if starts_with t ''0o'' \<or> starts_with t ''0O''
         then radix_positive ''01234567'' (drop 2 t)
         else if starts_with t ''0b'' \<or> starts_with t ''0B''
         then radix_positive ''01'' (drop 2 t)
         else if starts_with t ''-'' then False
         else if starts_with t ''+''
         then (tl t = ''Infinity'' \<or> decimal_positive (tl t))
         else (t = ''Infinity'' \<or> decimal_positive t))"

fun js_gt0 :: "jsval \<Rightarrow> bool" where
  "js_gt0 (JNum n) = (0 < n)"
| "js_gt0 (JBool b) = b"
| "js_gt0 (JStr s) = str_positive s"
| "js_gt0 (JArr xs) = str_positive (js_String (JArr xs))"
| "js_gt0 v = False"

text \<open>\<^verbatim>\<open>v.join(sep)\<close>: only an array has the method.\<close>

definition js_array_join :: "string \<Rightarrow> jsval \<Rightarrow> thrown + string" where
  "js_array_join sep v =
     (case v of
        JArr xs \<Rightarrow> Inr (js_join sep (map (\<lambda>x. if nullish x then [] else js_String x) xs))
      | _ \<Rightarrow> Inl (Thrown ''join is not a function''))"

text \<open>\<^verbatim>\<open>s.includes(p)\<close> on strings.\<close>

fun str_includes :: "string \<Rightarrow> string \<Rightarrow> bool" where
  "str_includes [] p = (p = [])"
| "str_includes (c # cs) p = (starts_with (c # cs) p \<or> str_includes cs p)"

text \<open>
  \<^verbatim>\<open>v.includes(p)\<close> for a string \<open>p\<close>: substring search on a string, element search on
  an array, a type error on anything else.
\<close>

definition js_includes :: "jsval \<Rightarrow> string \<Rightarrow> thrown + bool" where
  "js_includes v p =
     (case v of
        JStr s \<Rightarrow> Inr (str_includes s p)
      | JArr xs \<Rightarrow> Inr (JStr p \<in> set xs)
      | _ \<Rightarrow> Inl (Thrown ''includes is not a function''))"

text \<open>
  \<^verbatim>\<open>v.toLowerCase()\<close>; only the letters A to Z are mapped, which decides every search
  for an ASCII word.
\<close>

definition lower_char :: "char \<Rightarrow> char" where
  "lower_char c =
     (if (65::nat) \<le> of_char c \<and> (of_char c :: nat) \<le> 90 then char_of (of_char c + (32::nat)) else c)"

definition js_toLowerCase :: "jsval \<Rightarrow> thrown + string" where
  "js_toLowerCase v =
     (case v of
        JStr s \<Rightarrow> Inr (map lower_char s)
      | _ \<Rightarrow> Inl (Thrown ''toLowerCase is not a function''))"

definition summary_div :: "string \<Rightarrow> string" where
  \<open>summary_div formattedSummary =
     ''<div class="result-summary" style="margin-bottom: 1rem; padd'' @
     ''ing: 1rem; background: rgba(99, 102, 241, 0.1); border-radiu'' @
     ''s: 0.5rem; border-left: 3px solid var(--accent-color); line-'' @
     ''height: 1.6;">'' @
     formattedSummary @
     ''</div>''\<close>

definition collections_div :: "string \<Rightarrow> string" where
  \<open>collections_div collectionsInfo =
     ''<div style="margin-bottom: 1rem; padding: 0.75rem; backgroun'' @
     ''d: rgba(52, 211, 153, 0.1); border-radius: 0.5rem; font-size'' @
     '': 0.9rem; color: var(--text-secondary);">\<newline>         '' @
     ''           <strong>Collections searched:</strong> '' @
     escapeHtml_enh (JStr collectionsInfo) @
     ''\<newline>      </div>''\<close>

text \<open>The block "Show collections searched info" of \<open>formatResults\<close>.\<close>

definition collections_block :: "jsval \<Rightarrow> jsval \<Rightarrow> thrown + string" where
  "collections_block summary data =
     (if truthy data \<and> truthy (js_index data ''collections_searched'')
         \<and> js_gt0 (js_index (js_index data ''collections_searched'') ''length'')
      then case js_array_join '', '' (js_index data ''collections_searched'') of
             Inl e \<Rightarrow> Inl e
           | Inr collectionsInfo \<Rightarrow>
               if \<not> truthy summary then Inr (collections_div collectionsInfo)
               else case js_toLowerCase summary of
                      Inl e \<Rightarrow> Inl e
                    | Inr low \<Rightarrow>
                        if \<not> str_includes low ''collection''
                        then Inr (collections_div collectionsInfo) else Inr []
      else Inr [])"

text \<open>
  \<open>formatResults\<close> of the enhanced script. An empty array returns the summary, or a
  fixed text when the summary is falsy.
\<close>

definition formatResults_enh :: "jsval list \<Rightarrow> jsval \<Rightarrow> jsval \<Rightarrow> thrown + jsval" where
  \<open>formatResults_enh results summary data =
     (if results = [] then Inr (js_or summary (JStr ''No results found.''))
      else case columns_enh results of
             Inl e \<Rightarrow> Inl e
           | Inr cols \<Rightarrow>
               (case collections_block summary data of
                  Inl e \<Rightarrow> Inl e
                | Inr block \<Rightarrow>
                    Inr (JStr (
                      (if truthy summary
                       then summary_div (replace_char (CHR 0x0A) ''<br>'' (escapeHtml_enh summary))
                       else []) @
                      block @
                      ''<div style="overflow-x: auto; margin: 1rem 0; border-radius:'' @
                      '' 0.5rem;">'' @
                      ''<table style="width: 100%; border-collapse: collapse; min-wi'' @
                      ''dth: 800px; font-size: 0.9rem;">'' @
                      ''<tr>'' @ concat (map th_enh cols) @ ''</tr>'' @
                      concat (map (tr_enh cols) results) @
                      ''</table>'' @
                      ''</div>'' @
                      download_button_enh))))\<close>

section \<open>Request handlers\<close>

text \<open>
  What the network gives back to one \<^verbatim>\<open>fetch\<close>: a rejection (the thrown network
  error), or a response with its \<^verbatim>\<open>ok\<close> flag and the outcome of \<^verbatim>\<open>response.json()\<close>,
  which is a parse error or the parsed body.
\<close>

record response =
  ok :: bool
  json :: "thrown + jsval"

type_synonym fetch_result = "thrown + response"

text \<open>
  A block of statements runs to the list of effects it performed and either the thrown
  error that ended it or its value.
\<close>

type_synonym 'a comp = "effect list \<times> (thrown + 'a)"

definition emit :: "effect list \<Rightarrow> unit comp" where
  "emit es = (es, Inr ())"

definition ret :: "'a \<Rightarrow> 'a comp" where
  "ret x = ([], Inr x)"

definition attempt :: "thrown + 'a \<Rightarrow> 'a comp" where
  "attempt r = ([], r)"

definition and_then :: "'a comp \<Rightarrow> ('a \<Rightarrow> 'b comp) \<Rightarrow> 'b comp" where
  "and_then m f =
     (case m of
        (es, Inl e) \<Rightarrow> (es, Inl e)
      | (es, Inr x) \<Rightarrow> (case f x of (es', r) \<Rightarrow> (es @ es', r)))"

text \<open>\<^verbatim>\<open>try { body } catch (error) { handler }\<close>, the value of the body dropped.\<close>

definition try_catch :: "'a comp \<Rightarrow> (thrown \<Rightarrow> effect list) \<Rightarrow> effect list" where
  "try_catch body handler =
     (case body of
        (es, Inl e) \<Rightarrow> es @ handler e
      | (es, Inr x) \<Rightarrow> es)"

text \<open>
  Assigning to \<^verbatim>\<open>textContent\<close>: \<^verbatim>\<open>null\<close> and \<^verbatim>\<open>undefined\<close> clear the text.
\<close>

definition dom_text :: "jsval \<Rightarrow> string" where
  "dom_text v = (if nullish v then [] else js_String v)"

subsection \<open>Legacy script\<close>

definition setup_try_legacy :: "fetch_result \<Rightarrow> unit comp" where
  "setup_try_legacy fr =
     and_then (emit [Fetch ''POST'' ''/api/setup'' NoBody]) (\<lambda>_.
     and_then (attempt fr) (\<lambda>response.
     and_then (attempt (json response)) (\<lambda>data.
     if \<not> ok response then
       and_then (attempt (js_get data ''error'')) (\<lambda>err.
       attempt (Inl (Thrown (js_String (js_or err (JStr ''Setup failed''))))))
     else
       and_then (attempt (js_get data ''message'')) (\<lambda>m.
       emit [SetProp ''setup-message'' ''textContent'' (dom_text m),
             SetProp ''setup-message'' ''style.backgroundColor'' ''#e8f5e9'']))))"

definition setup_click_legacy :: "fetch_result \<Rightarrow> effect list" where
  "setup_click_legacy fr =
     [SetProp ''setup-message'' ''textContent'' ''Setting up sample database...'',
      SetProp ''setup-message'' ''style.backgroundColor'' ''#e0f7fa''] @
     try_catch (setup_try_legacy fr) (\<lambda>error.
       [SetProp ''setup-message'' ''textContent'' (''Failed to setup database: '' @ message error),
        SetProp ''setup-message'' ''style.backgroundColor'' ''#ffebee''])"

definition import_ok_text :: "string \<Rightarrow> string" where
  "import_ok_text collection =
     [CHR 0xE2, CHR 0x9C, CHR 0x85] @ '' CSV imported successfully into collection: '' @ collection"

definition import_failed_text :: "string \<Rightarrow> string" where
  "import_failed_text msg = [CHR 0xE2, CHR 0x9D, CHR 0x8C] @ '' Failed to import CSV: '' @ msg"

definition import_try_legacy :: "string \<Rightarrow> fetch_result \<Rightarrow> unit comp" where
  "import_try_legacy file fr =
     and_then (emit [Fetch ''POST'' ''/api/import-csv'' (FormFile file)]) (\<lambda>_.
     and_then (attempt fr) (\<lambda>response.
     and_then (attempt (json response)) (\<lambda>data.
     if \<not> ok response then
       and_then (attempt (js_get data ''error'')) (\<lambda>err.
       attempt (Inl (Thrown (js_String (js_or err (JStr ''CSV import failed''))))))
     else
       and_then (attempt (js_get data ''collection'')) (\<lambda>c.
       emit [SetProp ''import-message'' ''textContent'' (import_ok_text (js_String c)),
             SetProp ''import-message'' ''style.backgroundColor'' ''#e8f5e9'']))))"

text \<open>The argument \<open>file\<close> is \<^verbatim>\<open>csvFileInput.files[0]\<close>, absent when nothing is selected.\<close>

definition import_click_legacy :: "string option \<Rightarrow> fetch_result \<Rightarrow> effect list" where
  "import_click_legacy file fr =
     (case file of
        None \<Rightarrow>
          [SetProp ''import-message'' ''textContent'' ''Please select a CSV file first.'',
           SetProp ''import-message'' ''style.backgroundColor'' ''#fff3e0'']
      | Some f \<Rightarrow>
          [SetProp ''import-message'' ''textContent'' ''Uploading and importing CSV...'',
           SetProp ''import-message'' ''style.backgroundColor'' ''#e0f7fa''] @
          try_catch (import_try_legacy f fr) (\<lambda>error.
            [SetProp ''import-message'' ''textContent'' (import_failed_text (message error)),
             SetProp ''import-message'' ''style.backgroundColor'' ''#ffebee'']))"

text \<open>\<^verbatim>\<open>data.result || data.sample_result || []\<close> and \<^verbatim>\<open>data.result_summary || ''\<close>\<close>

definition results_of_legacy :: "jsval \<Rightarrow> jsval" where
  "results_of_legacy data =
     js_or (js_or (js_index data ''result'') (js_index data ''sample_result'')) (JArr [])"

definition summary_of_legacy :: "jsval \<Rightarrow> jsval" where
  "summary_of_legacy data = js_or (js_index data ''result_summary'') (JStr [])"

text \<open>
  The text of the answer. For a non-empty array \<open>formatResults\<close> builds the table and
  sets the 50 ms timer that will attach the download listener.
\<close>

definition resultMessage_legacy :: "jsval \<Rightarrow> string comp" where
  "resultMessage_legacy data =
     (case results_of_legacy data of
        JArr [] \<Rightarrow> ret ''No results found for your query.''
      | JArr (r # rs) \<Rightarrow>
          and_then (attempt (formatResults_legacy (r # rs) (summary_of_legacy data))) (\<lambda>table.
          and_then (emit [Timer 50 (AttachDownload (r # rs))]) (\<lambda>_.
          ret table))
      | JNum n \<Rightarrow> ret (''Result: '' @ js_String (JNum n))
      | v \<Rightarrow> ret (json_stringify v))"

text \<open>
  The legacy \<open>addMessage\<close> gives the new element the \<^verbatim>\<open>id\<close>
  \<^verbatim>\<open>Date.now().toString()\<close> and returns it; \<open>now\<close> is the reading of the clock, in
  milliseconds, at that call.
\<close>

definition message_id :: "int \<Rightarrow> string" where
  "message_id now = js_String (JNum now)"

definition sendQuery_try :: "string \<Rightarrow> string \<Rightarrow> int \<Rightarrow> fetch_result \<Rightarrow> unit comp" where
  "sendQuery_try question loadingMsgId now3 fr =
     and_then (emit [Fetch ''POST'' ''/api/query'' (JsonBody (JObj [(''question'', JStr question)]))]) (\<lambda>_.
     and_then (attempt fr) (\<lambda>response.
     and_then (attempt (json response)) (\<lambda>data.
     and_then (emit [RemoveMessage loadingMsgId]) (\<lambda>_.
     and_then (if \<not> ok response then ret True
               else and_then (attempt (js_get data ''error'')) (\<lambda>err. ret (truthy err))) (\<lambda>failed.
     if failed then
       and_then (attempt (js_get data ''error'')) (\<lambda>err.
       emit [AddMessage (message_id now3) (JStr (''Error: '' @ js_String err)) ''error'' None])
     else
       and_then (emit (if truthy (js_index data ''query'')
                       then [SetProp ''query-display'' ''textContent''
                               (json_stringify (js_index data ''query''))]
                       else [])) (\<lambda>_.
       and_then (resultMessage_legacy data) (\<lambda>resultMessage.
       emit [AddMessage (message_id now3) (JStr resultMessage) ''system'' None])))))))"

text \<open>
  \<open>sendQuery\<close>: \<open>input\<close> is the text of the input field; \<open>now1\<close>, \<open>now2\<close> and
  \<open>now3\<close> are the readings of \<^verbatim>\<open>Date.now()\<close> at the calls of \<open>addMessage\<close> for the
  question, for the "Processing" message and for the answer or error message (on every
  path exactly one message follows the request). \<open>loadingMsgId\<close> is what the second
  call returned.
\<close>

definition sendQuery :: "string \<Rightarrow> int \<Rightarrow> int \<Rightarrow> int \<Rightarrow> fetch_result \<Rightarrow> effect list" where
  "sendQuery input now1 now2 now3 fr =
     (let question = trim input
      in if question = [] then []
         else let loadingMsgId = message_id now2
              in [AddMessage (message_id now1) (JStr question) ''user'' None,
                  SetProp ''user-input'' ''value'' [],
                  AddMessage loadingMsgId (JStr ''Processing your question...'') ''system'' None] @
                 try_catch (sendQuery_try question loadingMsgId now3 fr) (\<lambda>error.
                   [RemoveMessage loadingMsgId,
                    AddMessage (message_id now3)
                      (JStr (''Error processing your query: '' @ message error)) ''error'' None]))"

text \<open>
  The messages of the chat area of the legacy page, in document order, each with its
  \<^verbatim>\<open>id\<close>, type and text. \<open>addMessage\<close> appends; \<open>removeMessage\<close> removes what
  \<^verbatim>\<open>document.getElementById\<close> finds, the first element with that \<^verbatim>\<open>id\<close>. (The other
  elements of the page have fixed identifiers that are not numerals.)
\<close>

type_synonym chat = "(string \<times> string \<times> jsval) list"

fun remove_first :: "string \<Rightarrow> chat \<Rightarrow> chat" where
  "remove_first i [] = []"
| "remove_first i (m # ms) = (if fst m = i then ms else m # remove_first i ms)"

fun chat_step :: "chat \<Rightarrow> effect \<Rightarrow> chat" where
  "chat_step ms (AddMessage i text type downloadData) = ms @ [(i, type, text)]"
| "chat_step ms (RemoveMessage i) = remove_first i ms"
| "chat_step ms e = ms"

definition chat_after :: "chat \<Rightarrow> effect list \<Rightarrow> chat" where
  "chat_after ms es = foldl chat_step ms es"

subsection \<open>Enhanced script\<close>

text \<open>
  The enhanced \<open>addMessage\<close> gives the new element the \<^verbatim>\<open>id\<close>
  \<^verbatim>\<open>'msg-' + Date.now() + '-' + Math.random().toString(36).substr(2, 9)\<close>. A stamp is
  the reading of the clock together with the text drawn from the random number.
\<close>

type_synonym stamp = "int \<times> string"

definition messageId_enh :: "stamp \<Rightarrow> string" where
  "messageId_enh st = ''msg-'' @ js_String (JNum (fst st)) @ ''-'' @ snd st"

definition updateSendButton :: "string \<Rightarrow> effect list" where
  "updateSendButton inputValue = [SetDisabled ''send-btn'' (\<not> 0 < length (trim inputValue))]"

text \<open>
  \<^verbatim>\<open>data.result || data.patents || data.sample_result || []\<close>,
  \<^verbatim>\<open>data.result_summary || data.summary || ''\<close> and \<^verbatim>\<open>data.collections_searched || []\<close>
\<close>

definition results_of_enh :: "jsval \<Rightarrow> jsval" where
  "results_of_enh data =
     js_or (js_or (js_or (js_index data ''result'') (js_index data ''patents''))
                  (js_index data ''sample_result'')) (JArr [])"

definition summary_of_enh :: "jsval \<Rightarrow> jsval" where
  "summary_of_enh data =
     js_or (js_or (js_index data ''result_summary'') (js_index data ''summary'')) (JStr [])"

definition collectionsSearched_of :: "jsval \<Rightarrow> jsval" where
  "collectionsSearched_of data = js_or (js_index data ''collections_searched'') (JArr [])"

definition enhancedSummary :: "string \<Rightarrow> jsval \<Rightarrow> thrown + jsval" where
  "enhancedSummary currentMode data =
     (let summary = summary_of_enh data;
          collectionsSearched = collectionsSearched_of data
      in if js_gt0 (js_index collectionsSearched ''length'') \<and> currentMode = ''database'' then
           case js_includes summary ''collection'' of
             Inl e \<Rightarrow> Inl e
           | Inr found \<Rightarrow>
               if found then Inr summary
               else case js_array_join '', '' collectionsSearched of
                      Inl e \<Rightarrow> Inl e
                    | Inr joined \<Rightarrow>
                        Inr (JStr (js_String summary @ ''\<newline>\<newline>Searched '' @
                                   js_String (js_index collectionsSearched ''length'') @
                                   '' collection(s): '' @ joined))
         else Inr summary)"

definition noResultsMsg :: "jsval \<Rightarrow> thrown + string" where
  "noResultsMsg data =
     (let collectionsSearched = collectionsSearched_of data
      in if js_gt0 (js_index collectionsSearched ''length'') then
           case js_array_join '', '' collectionsSearched of
             Inl e \<Rightarrow> Inl e
           | Inr joined \<Rightarrow>
               Inr (''No results found in '' @ js_String (js_index collectionsSearched ''length'') @
                    '' collection(s): '' @ joined @ ''. Try rephrasing your query.'')
         else Inr ''No results found. Try rephrasing your query.'')"

text \<open>The request of each mode.\<close>

definition request_enh :: "string \<Rightarrow> string \<Rightarrow> effect" where
  "request_enh currentMode question =
     (if currentMode = ''database''
      then Fetch ''POST'' ''/api/query''
             (JsonBody (JObj [(''question'', JStr question), (''mode'', JStr ''database'')]))
      else Fetch ''POST'' ''/api/search''
             (JsonBody (JObj [(''query'', JStr question), (''limit'', JNum 10)])))"

text \<open>
  What follows a parsed body of an \<^verbatim>\<open>ok\<close> response. The first step is the debug
  line that reads \<^verbatim>\<open>data.result\<close>, which throws on a \<^verbatim>\<open>null\<close> body.
\<close>

definition render_enh :: "string \<Rightarrow> stamp \<Rightarrow> jsval \<Rightarrow> unit comp" where
  "render_enh currentMode stamp2 data =
     and_then (attempt (js_get data ''result'')) (\<lambda>_.
     if truthy (js_index data ''error'') then
       emit [AddMessage (messageId_enh stamp2)
               (JStr (''Error: '' @ js_String (js_index data ''error''))) ''error'' None]
     else
       and_then (attempt (enhancedSummary currentMode data)) (\<lambda>summary.
       case results_of_enh data of
         JArr (r # rs) \<Rightarrow>
           and_then (attempt (formatResults_enh (r # rs) summary data)) (\<lambda>formattedMessage.
           emit [AddMessage (messageId_enh stamp2) formattedMessage ''assistant'' (Some (r # rs))])
       | _ \<Rightarrow>
           if truthy summary then emit [AddMessage (messageId_enh stamp2) summary ''assistant'' None]
           else and_then (attempt (noResultsMsg data)) (\<lambda>msg.
                emit [AddMessage (messageId_enh stamp2) (JStr msg) ''assistant'' None])))"

definition sendMessage_try :: "string \<Rightarrow> string \<Rightarrow> stamp \<Rightarrow> fetch_result \<Rightarrow> unit comp" where
  "sendMessage_try currentMode question stamp2 fr =
     and_then (emit [request_enh currentMode question]) (\<lambda>_.
     and_then (attempt fr) (\<lambda>response.
     and_then (emit [HideProcessing]) (\<lambda>_.
     if \<not> ok response then
       and_then (attempt (js_get (case json response of
                                    Inl e \<Rightarrow> JObj [(''error'', JStr ''Unknown error'')]
                                  | Inr d \<Rightarrow> d) ''error'')) (\<lambda>err.
       emit [AddMessage (messageId_enh stamp2)
               (JStr (''Error: '' @ js_String (js_or err (JStr ''Request failed''))))
               ''error'' None])
     else
       case json response of
         Inl jsonError \<Rightarrow>
           emit [AddMessage (messageId_enh stamp2)
                   (JStr (''Error: Failed to parse server response. '' @ message jsonError))
                   ''error'' None]
       | Inr data \<Rightarrow> render_enh currentMode stamp2 data)))"

text \<open>
  \<open>sendMessage\<close>: \<open>stamp1\<close> and \<open>stamp2\<close> are the stamps of the two calls of
  \<open>addMessage\<close>, for the question and for the answer or error message.
\<close>

definition sendMessage :: "string \<Rightarrow> string \<Rightarrow> stamp \<Rightarrow> stamp \<Rightarrow> fetch_result \<Rightarrow> effect list" where
  "sendMessage currentMode input stamp1 stamp2 fr =
     (let question = trim input
      in if question = [] then []
         else [AddMessage (messageId_enh stamp1) (JStr question) ''user'' None,
               SetProp ''user-input'' ''value'' []] @
              updateSendButton [] @
              [SetProp ''user-input'' ''style.height'' ''auto'',
               ShowProcessing] @
              try_catch (sendMessage_try currentMode question stamp2 fr) (\<lambda>error.
                [HideProcessing,
                 AddMessage (messageId_enh stamp2) (JStr (''Error: '' @ message error)) ''error'' None]))"

text \<open>
  The \<^verbatim>\<open>keydown\<close> listener of the input field: Enter without Shift sends, unless the
  send button is disabled.
\<close>

definition keydown_enh ::
  "string \<Rightarrow> bool \<Rightarrow> bool \<Rightarrow> string \<Rightarrow> string \<Rightarrow> stamp \<Rightarrow> stamp \<Rightarrow> fetch_result \<Rightarrow> effect list" where
  "keydown_enh key shiftKey sendDisabled currentMode input stamp1 stamp2 fr =
     (if key = ''Enter'' \<and> \<not> shiftKey \<and> \<not> sendDisabled
      then sendMessage currentMode input stamp1 stamp2 fr
      else [])"

definition upload_ok_text :: "string \<Rightarrow> string" where
  "upload_ok_text collection = [CHR 0xE2, CHR 0x9C, CHR 0x85] @ '' CSV imported: '' @ collection"

definition upload_failed_text :: "string \<Rightarrow> string" where
  "upload_failed_text msg = [CHR 0xE2, CHR 0x9D, CHR 0x8C] @ '' Upload failed: '' @ msg"

definition csv_change_try :: "string \<Rightarrow> fetch_result \<Rightarrow> unit comp" where
  "csv_change_try file fr =
     and_then (emit [Fetch ''POST'' ''/api/import-csv'' (FormFile file)]) (\<lambda>_.
     and_then (attempt fr) (\<lambda>response.
     and_then (attempt (json response)) (\<lambda>data.
     if \<not> ok response then
       and_then (attempt (js_get data ''error'')) (\<lambda>err.
       attempt (Inl (Thrown (js_String (js_or err (JStr ''Upload failed''))))))
     else
       and_then (attempt (js_get data ''collection'')) (\<lambda>c.
       emit [Toast (upload_ok_text (js_String c)) ''success'',
             SetProp ''csv-file'' ''value'' [],
             Timer 500 LoadCollections]))))"

definition csv_change :: "string option \<Rightarrow> fetch_result \<Rightarrow> effect list" where
  "csv_change file fr =
     (case file of
        None \<Rightarrow> []
      | Some f \<Rightarrow>
          [Toast ''Uploading CSV...'' ''info''] @
          try_catch (csv_change_try f fr) (\<lambda>error.
            [Toast (upload_failed_text (message error)) ''error'']))"

definition collection_item :: "string \<Rightarrow> string \<Rightarrow> string" where
  \<open>collection_item name count =
     ''<div class="collection-item">\<newline>                     '' @
     ''   <span>'' @
     name @
     ''</span>\<newline>                        <span class="count"'' @
     ''>'' @
     count @
     ''</span>\<newline>                    </div>''\<close>

text \<open>One entry of the list: \<^verbatim>\<open>c.name\<close> escaped, \<^verbatim>\<open>c.count\<close> as it is.\<close>

definition collection_entry :: "jsval \<Rightarrow> thrown + string" where
  "collection_entry c =
     (case js_get c ''name'' of
        Inl e \<Rightarrow> Inl e
      | Inr name \<Rightarrow> Inr (collection_item (escapeHtml_enh name) (js_String (js_index c ''count''))))"

fun collection_entries :: "jsval list \<Rightarrow> thrown + string" where
  "collection_entries [] = Inr []"
| "collection_entries (c # cs) =
     (case collection_entry c of
        Inl e \<Rightarrow> Inl e
      | Inr h \<Rightarrow> (case collection_entries cs of Inl e \<Rightarrow> Inl e | Inr hs \<Rightarrow> Inr (h @ hs)))"

definition collections_html :: "jsval \<Rightarrow> thrown + string" where
  \<open>collections_html collections =
     (if js_index collections ''length'' = JNum 0
      then Inr ''<div class="collection-item empty">No data loaded</div>''
      else case collections of
             JArr cs \<Rightarrow> collection_entries cs
           | _ \<Rightarrow> Inl (Thrown ''collections.map is not a function''))\<close>

definition loadCollections_try :: "fetch_result \<Rightarrow> unit comp" where
  "loadCollections_try fr =
     and_then (emit [Fetch ''GET'' ''/api/collections'' NoBody]) (\<lambda>_.
     and_then (attempt fr) (\<lambda>response.
     if \<not> ok response then attempt (Inl (Thrown ''Failed to fetch collections''))
     else
       and_then (attempt (json response)) (\<lambda>data.
       and_then (attempt (js_get data ''collections'')) (\<lambda>c.
       and_then (attempt (collections_html (js_or c (JArr [])))) (\<lambda>html.
       emit [SetProp ''collections-list'' ''innerHTML'' html])))))"

definition collections_error_html :: string where
  \<open>collections_error_html = ''<div class="collection-item empty">Error loading collections</div>''\<close>

definition loadCollections :: "fetch_result \<Rightarrow> effect list" where
  "loadCollections fr =
     try_catch (loadCollections_try fr) (\<lambda>error.
       [SetProp ''collections-list'' ''innerHTML'' collections_error_html])"

subsection \<open>Download data of rendered messages\<close>

text \<open>
  The module keeps \<open>messageDownloadData\<close>, a map from message identifiers to row
  arrays. \<open>addMessage\<close> stores the array given as \<open>downloadData\<close>; the listener that it
  attaches to the download button of the message looks the identifier up again.
\<close>

record ui_state =
  messageDownloadData :: "string \<rightharpoonup> jsval list"

definition addMessage :: "ui_state \<Rightarrow> string \<Rightarrow> jsval \<Rightarrow> string \<Rightarrow> jsval \<Rightarrow> ui_state" where
  "addMessage st messageId text type downloadData =
     (case downloadData of
        JArr rows \<Rightarrow> st\<lparr>messageDownloadData := (messageDownloadData st)(messageId \<mapsto> rows)\<rparr>
      | _ \<Rightarrow> st)"

definition download_click :: "int \<Rightarrow> ui_state \<Rightarrow> string \<Rightarrow> thrown + effect list" where
  "download_click now st messageId =
     (case messageDownloadData st messageId of
        Some data \<Rightarrow> downloadCSV_enh now data
      | None \<Rightarrow> Inr [Toast ''No data available for download'' ''error''])"

subsection \<open>User actions\<close>

text \<open>\<open>switchMode\<close> and the "new chat" button of the enhanced script.\<close>

definition switchMode :: "string \<Rightarrow> effect list" where
  "switchMode mode =
     [SetClass ''mode-database'' ''active'' (mode = ''database''),
      SetClass ''mode-serpapi'' ''active'' (mode = ''serpapi''),
      SetProp ''current-mode-title'' ''textContent''
        (if mode = ''database'' then ''Database Mode'' else ''Web Search Mode''),
      SetProp ''user-input'' ''value'' []] @
     updateSendButton []"

definition newChat :: "effect list" where
  "newChat =
     [SetProp ''messages-wrapper'' ''innerHTML'' [],
      SetClass ''welcome-screen'' ''hidden'' False,
      SetProp ''user-input'' ''value'' []] @
     updateSendButton []"

text \<open>
  The \<^verbatim>\<open>keypress\<close> listener of the legacy input field:
  \<^verbatim>\<open>e.key === 'Enter' && sendQuery()\<close>.
\<close>

definition keypress_legacy ::
  "string \<Rightarrow> string \<Rightarrow> int \<Rightarrow> int \<Rightarrow> int \<Rightarrow> fetch_result \<Rightarrow> effect list" where
  "keypress_legacy key input now1 now2 now3 fr =
     (if key = ''Enter'' then sendQuery input now1 now2 now3 fr else [])"

text \<open>
  The click listener of the document of the enhanced script, which closes the sidebar
  on a narrow window when the click is outside the sidebar and the menu button.
\<close>

definition document_click :: "int \<Rightarrow> bool \<Rightarrow> bool \<Rightarrow> bool \<Rightarrow> effect list" where
  "document_click innerWidth sidebarOpen inSidebar inMenuBtn =
     (if innerWidth \<le> 768 \<and> sidebarOpen \<and> \<not> inSidebar \<and> \<not> inMenuBtn
      then [SetClass ''sidebar'' ''open'' False] else [])"

text \<open>
  One user action on either page, with what the handler reads from the page at that
  moment. A download click that throws (a \<^verbatim>\<open>null\<close> row) performs nothing.
\<close>

datatype user_action =
    LegacySetupClick
  | LegacyImportClick "string option"
  | LegacySendClick string int int int
  | LegacyKeypress string string int int int
  | LegacyDownloadClick int "jsval list"
  | LegacyUploadLabelClick
  | EnhModeClick string
  | EnhInput string
  | EnhSendClick string string stamp stamp
  | EnhKeydown string bool bool string string stamp stamp
  | EnhCsvChange "string option"
  | EnhNewChatClick
  | EnhDownloadClick int ui_state string
  | EnhMobileMenuClick
  | EnhDocumentClick int bool bool bool

definition effects_of :: "thrown + effect list \<Rightarrow> effect list" where
  "effects_of r = (case r of Inl e \<Rightarrow> [] | Inr es \<Rightarrow> es)"

fun handle :: "user_action \<Rightarrow> fetch_result \<Rightarrow> effect list" where
  "handle LegacySetupClick fr = setup_click_legacy fr"
| "handle (LegacyImportClick file) fr = import_click_legacy file fr"
| "handle (LegacySendClick input now1 now2 now3) fr = sendQuery input now1 now2 now3 fr"
| "handle (LegacyKeypress key input now1 now2 now3) fr =
     keypress_legacy key input now1 now2 now3 fr"
| "handle (LegacyDownloadClick now rawData) fr = effects_of (downloadCSV_legacy now rawData)"
| "handle (EnhModeClick mode) fr = switchMode mode"
| "handle (EnhInput inputValue) fr = updateSendButton inputValue"
| "handle (EnhSendClick currentMode input stamp1 stamp2) fr =
     sendMessage currentMode input stamp1 stamp2 fr"
| "handle (EnhKeydown key shiftKey sendDisabled currentMode input stamp1 stamp2) fr =
     keydown_enh key shiftKey sendDisabled currentMode input stamp1 stamp2 fr"
| "handle (EnhCsvChange file) fr = csv_change file fr"
| "handle EnhNewChatClick fr = newChat"
| "handle (EnhDownloadClick now st messageId) fr = effects_of (download_click now st messageId)"
| "handle LegacyUploadLabelClick fr = [Click ''csv-file'']"
| "handle EnhMobileMenuClick fr = [ToggleClass ''sidebar'' ''open'']"
| "handle (EnhDocumentClick innerWidth sidebarOpen inSidebar inMenuBtn) fr =
     document_click innerWidth sidebarOpen inSidebar inMenuBtn"

text \<open>
  The effects of an action together with those of the timers it sets: the collections
  reload runs \<open>loadCollections\<close>, whose request is answered by \<open>fr2\<close>; attaching a
  download listener has no effect of its own.
\<close>

fun timer_effects :: "fetch_result \<Rightarrow> effect \<Rightarrow> effect list" where
  "timer_effects fr2 (Timer delay LoadCollections) = loadCollections fr2"
| "timer_effects fr2 e = []"

fun is_reload_timer :: "effect \<Rightarrow> bool" where
  "is_reload_timer (Timer delay LoadCollections) = True"
| "is_reload_timer e = False"

definition run_action :: "user_action \<Rightarrow> fetch_result \<Rightarrow> fetch_result \<Rightarrow> effect list" where
  "run_action a fr fr2 = handle a fr @ concat (map (timer_effects fr2) (handle a fr))"

fun is_fetch :: "effect \<Rightarrow> bool" where
  "is_fetch (Fetch method url body) = True"
| "is_fetch e = False"

definition fetches :: "effect list \<Rightarrow> nat" where
  "fetches es = length (filter is_fetch es)"

subsection \<open>Failures and their display\<close>

text \<open>
  An effect that shows an error: a chat message or a toast of type \<^verbatim>\<open>error\<close>, the
  failure texts of the legacy setup and import panels, the error entry of the
  collections list.
\<close>

fun is_error_effect :: "effect \<Rightarrow> bool" where
  "is_error_effect (AddMessage i text type downloadData) = (type = ''error'')"
| "is_error_effect (Toast msg type) = (type = ''error'')"
| "is_error_effect (SetProp element property v) =
     ((property = ''textContent'' \<and>
        (starts_with v ''Failed to setup database: '' \<or> starts_with v (import_failed_text [])))
      \<or> (property = ''innerHTML'' \<and> v = collections_error_html))"
| "is_error_effect e = False"

definition shows_error :: "effect list \<Rightarrow> bool" where
  "shows_error es = list_ex is_error_effect es"

text \<open>
  The failures of a request: the network error, the status that is not ok, the body
  that does not parse; and, apart from these, a parsed body of an ok response with a
  truthy \<^verbatim>\<open>error\<close> field.
\<close>

definition failed_transport :: "fetch_result \<Rightarrow> bool" where
  "failed_transport fr =
     (case fr of
        Inl e \<Rightarrow> True
      | Inr response \<Rightarrow> \<not> ok response \<or> (case json response of Inl e \<Rightarrow> True | Inr d \<Rightarrow> False))"

definition error_field :: "fetch_result \<Rightarrow> bool" where
  "error_field fr =
     (case fr of
        Inl e \<Rightarrow> False
      | Inr response \<Rightarrow>
          ok response \<and>
          (case json response of
             Inl e \<Rightarrow> False
           | Inr d \<Rightarrow> \<not> nullish d \<and> truthy (js_index d ''error'')))"

subsection \<open>The response as the specification reads it\<close>

text \<open>
  The reading of a successful response in the words of the specification: the results
  are the \<^verbatim>\<open>result\<close> field if present, otherwise \<^verbatim>\<open>sample_result\<close> (or \<^verbatim>\<open>patents\<close> in
  search mode), otherwise an empty result set; the summary is the \<^verbatim>\<open>result_summary\<close>
  field. These two definitions follow the specification, not the scripts.
\<close>

definition present :: "jsval \<Rightarrow> string \<Rightarrow> bool" where
  "present data k = (js_index data k \<noteq> JUndefined)"

definition spec_results :: "string \<Rightarrow> jsval \<Rightarrow> jsval" where
  "spec_results mode data =
     (if present data ''result'' then js_index data ''result''
      else if mode \<noteq> ''database'' \<and> present data ''patents'' then js_index data ''patents''
      else if present data ''sample_result'' then js_index data ''sample_result''
      else JArr [])"

definition spec_summary :: "jsval \<Rightarrow> jsval" where
  "spec_summary data = js_index data ''result_summary''"

section \<open>Properties\<close>

lemma js_join_Cons: "js_join sep (x # xs) = (if xs = [] then x else x @ sep @ js_join sep xs)"
  by (cases xs) simp_all

subsection \<open>Lists without duplicates, keys of rows\<close>

lemma uniq_acc_set: "set (uniq_acc seen xs) = set xs - set seen"
  by (induction xs arbitrary: seen) auto

lemma uniq_acc_distinct: "distinct (uniq_acc seen xs)"
  by (induction xs arbitrary: seen) (auto simp: uniq_acc_set)

lemma set_uniq: "set (uniq xs) = set xs"
  by (simp add: uniq_def uniq_acc_set)

lemma distinct_uniq: "distinct (uniq xs)"
  by (simp add: uniq_def uniq_acc_distinct)

lemma uniq_acc_filter: "filter P (uniq_acc seen xs) = uniq_acc (filter P seen) (filter P xs)"
  by (induction xs arbitrary: seen) auto

lemma uniq_filter: "filter P (uniq xs) = uniq (filter P xs)"
  by (simp add: uniq_def uniq_acc_filter)

lemma uniq_acc_first:
  "uniq_acc seen xs = map (\<lambda>i. xs ! i) (filter (\<lambda>i. xs ! i \<notin> set seen \<union> set (take i xs)) [0..<length xs])"
proof (induction xs arbitrary: seen)
  case Nil
  show ?case by simp
next
  case (Cons x xs)
  have up: "[0..<length (x # xs)] = 0 # map Suc [0..<length xs]"
    by (simp add: upt_conv_Cons map_Suc_upt del: upt_Suc)
  show ?case
    unfolding up
    by (auto simp add: Cons.IH filter_map comp_def simp del: upt_Suc
        intro!: arg_cong [where f = "map ((!) xs)"] filter_cong)
qed

lemma flat_keys_objects: "flat_keys (map JObj rows) = Inr (concat (map (map fst) rows))"
  by (induction rows) simp_all

subsection \<open>CSV quoting\<close>

lemma csv_run_quoted_body:
  "csv_run Quoted cur out (double_quotes v @ dquote # rest) = csv_run QuoteSeen (cur @ v) out rest"
  by (induction v arbitrary: cur) (simp_all add: double_quotes_def)

lemma csv_run_fields:
  "csv_run FieldStart [] out (js_join '','' (map csv_quote (v # vs))) = Some (out @ v # vs)"
proof (induction vs arbitrary: v out)
  case Nil
  show ?case using csv_run_quoted_body [of "[]" out v "[]"]
    by (simp add: csv_quote_def)
next
  case (Cons w ws)
  have "csv_run FieldStart [] out (js_join '','' (map csv_quote (v # w # ws)))
        = csv_run Quoted [] out (double_quotes v @ dquote # (CHR '','' # js_join '','' (map csv_quote (w # ws))))"
    by (simp add: csv_quote_def)
  also have "\<dots> = csv_run QuoteSeen v out (CHR '','' # js_join '','' (map csv_quote (w # ws)))"
    using csv_run_quoted_body [of "[]" out v] by simp
  also have "\<dots> = csv_run FieldStart [] (out @ [v]) (js_join '','' (map csv_quote (w # ws)))"
    by (simp add: dquote_def)
  also have "\<dots> = Some (out @ v # w # ws)"
    using Cons.IH [of "out @ [v]" w] by simp
  finally show ?case .
qed

lemma csv_quote_nonempty: "csv_quote v \<noteq> []"
  by (simp add: csv_quote_def)

lemma js_join_nonempty: "x \<noteq> [] \<Longrightarrow> js_join sep (x # xs) \<noteq> []"
  by (cases xs) simp_all

lemma csv_read_quoted: "csv_read_record (js_join '','' (map csv_quote vs)) = Some vs"
proof (cases vs)
  case Nil
  then show ?thesis by (simp add: csv_read_record_def)
next
  case (Cons v ws)
  have "js_join '','' (map csv_quote (v # ws)) \<noteq> []"
    using js_join_nonempty [OF csv_quote_nonempty] by simp
  then show ?thesis
    using Cons csv_run_fields [of "[]" v ws] by (simp add: csv_read_record_def)
qed

lemma dec_digit: "n < 10 \<Longrightarrow> dec n = [''0123456789'' ! n]"
  by (simp add: dec.simps)

lemma csv_field_eq:
  "csv_field row = (\<lambda>h. [dquote] @ double_quotes (csv_value row h) @ [dquote])"
  by (simp add: fun_eq_iff csv_field_def csv_quote_def)

text \<open>
  The enhanced export of a non-empty list of row objects: one download named
  \<^verbatim>\<open>query_results_<now>.csv\<close> whose first line lists every key of every row once, and
  whose other lines hold, per row and header, the stringified value between double
  quotes with each embedded double quote doubled.
\<close>

lemma downloadCSV_enh_export:
  assumes "rows \<noteq> []"
  shows "\<exists>hs. downloadCSV_enh now (map JObj rows) =
           Inr [Download (csv_filename now)
                  (js_join ''\<newline>'' (js_join '','' hs #
                     map (\<lambda>r. js_join '','' (map (\<lambda>h. [dquote] @ double_quotes (csv_value (JObj r) h) @ [dquote]) hs)) rows)),
                Toast ''CSV downloaded successfully!'' ''success'']
         \<and> set hs = (\<Union>r \<in> set rows. fst ` set r) \<and> distinct hs"
proof -
  let ?hs = "uniq (concat (map (map fst) rows))"
  have "downloadCSV_enh now (map JObj rows) =
          Inr [Download (csv_filename now) (csv_text ?hs (map JObj rows)),
               Toast ''CSV downloaded successfully!'' ''success'']"
    using assms by (simp add: downloadCSV_enh_def flat_keys_objects)
  moreover have "csv_text ?hs (map JObj rows) =
      js_join ''\<newline>'' (js_join '','' ?hs #
         map (\<lambda>r. js_join '','' (map (\<lambda>h. [dquote] @ double_quotes (csv_value (JObj r) h) @ [dquote]) ?hs)) rows)"
    by (simp add: csv_text_def csv_line_def csv_field_eq comp_def)
  moreover have "set ?hs = (\<Union>r \<in> set rows. fst ` set r)"
    by (simp add: set_uniq)
  ultimately show ?thesis
    using distinct_uniq [of "concat (map (map fst) rows)"] by auto
qed

text \<open>
  Claim C1 (CSV export: header row is the union of the keys of all rows, values quoted
  with doubled quotes, file named \<^verbatim>\<open>query_results_<timestamp>.csv\<close>). The legacy
  \<open>downloadCSV\<close> takes the header from the first row alone. For the two rows
  \<^verbatim>\<open>[{a: 1}, {b: 2}]\<close> exported at time 5 the file is, line by line, \<^verbatim>\<open>a\<close>,
  \<^verbatim>\<open>"1"\<close>, \<^verbatim>\<open>""\<close>: the key \<^verbatim>\<open>b\<close> is missing from the header and its value 2
  from the file, whereas the enhanced \<open>downloadCSV\<close> writes \<^verbatim>\<open>a,b\<close>, \<^verbatim>\<open>"1",""\<close>,
  \<^verbatim>\<open>"","2"\<close> for the same rows.
\<close>

theorem downloadCSV_legacy_header_first_row_only:
  "downloadCSV_legacy 5 [JObj [(''a'', JNum 1)], JObj [(''b'', JNum 2)]]
     = Inr [Download ''query_results_5.csv''
             (''a\<newline>'' @ [dquote] @ ''1'' @ [dquote] @ ''\<newline>'' @ [dquote, dquote])]
   \<and> downloadCSV_enh 5 [JObj [(''a'', JNum 1)], JObj [(''b'', JNum 2)]]
     = Inr [Download ''query_results_5.csv''
             (''a,b\<newline>'' @ [dquote] @ ''1'' @ [dquote] @ '','' @ [dquote, dquote] @ ''\<newline>''
               @ [dquote, dquote] @ '','' @ [dquote] @ ''2'' @ [dquote]),
            Toast ''CSV downloaded successfully!'' ''success'']"
  by (simp add: downloadCSV_legacy_def downloadCSV_enh_def csv_filename_def csv_text_def
      csv_line_def csv_field_def csv_quote_def csv_value_def double_quotes_def js_coalesce_def
      dquote_def dec_digit uniq_def)

text \<open>
  Claim C2 (round trip of the CSV quoting). Whatever the headers and the row, reading
  the line that \<open>downloadCSV\<close> writes for the row with the quoted-field reader gives
  back, header by header, the stringified values \<^verbatim>\<open>String(row[h] ?? '')\<close>, commas,
  double quotes and line breaks included.
\<close>

theorem csv_round_trip:
  "csv_read_record (csv_line headers row) = Some (map (csv_value row) headers)"
proof -
  have eq: "csv_field row = csv_quote \<circ> csv_value row"
    by (simp add: fun_eq_iff csv_field_def)
  show ?thesis
    unfolding csv_line_def eq map_map [symmetric] by (rule csv_read_quoted)
qed

theorem csv_round_trip_witness:
  "csv_read_record
     (csv_line [''a'', ''b''] (JObj [(''a'', JStr (''x,'' @ [dquote] @ ''y'')), (''b'', JNum 7)]))
   = Some [''x,'' @ [dquote] @ ''y'', ''7'']"
  using csv_round_trip [of "[''a'', ''b'']" "JObj [(''a'', JStr (''x,'' @ [dquote] @ ''y'')), (''b'', JNum 7)]"]
  by (simp add: csv_value_def js_coalesce_def dec_digit)

subsection \<open>Column order of the enhanced table\<close>

lemma flat_keys_excl_objects:
  "flat_keys_excl (map JObj rows) = Inr (filter (\<lambda>k. k \<notin> set excludeKeys) (concat (map (map fst) rows)))"
  by (induction rows) simp_all

lemma ordered_rest_filter: "filter (\<lambda>k. k \<noteq> ''_source'' \<and> k \<noteq> ''ai_summary'' \<and> k \<noteq> ''Link'' \<and> k \<noteq> ''_id'')
              (uniq (filter (\<lambda>k. k \<notin> set excludeKeys) ks))
            = uniq (filter (\<lambda>k. k \<notin> {''_id'', ''_source'', ''ai_summary'', ''Link''}) ks)"
  unfolding uniq_filter filter_filter excludeKeys_def
  by (rule arg_cong [where f = uniq], rule filter_cong [OF refl]) auto

lemma ordered_rest_without_collection: "filter (\<lambda>k. k \<noteq> ''_collection'') (uniq (filter (\<lambda>k. k \<notin> {''_id'', ''_source'', ''ai_summary'', ''Link''}) ks))
   = uniq (filter (\<lambda>k. k \<notin> {''_id'', ''_source'', ''_collection'', ''ai_summary'', ''Link''}) ks)"
  unfolding uniq_filter filter_filter
  by (rule arg_cong [where f = uniq], rule filter_cong [OF refl]) auto

lemma ordered_rest_no_collection: "''_collection'' \<notin> set ks \<Longrightarrow> uniq (filter (\<lambda>k. k \<notin> {''_id'', ''_source'', ''ai_summary'', ''Link''}) ks)
   = uniq (filter (\<lambda>k. k \<notin> {''_id'', ''_source'', ''_collection'', ''ai_summary'', ''Link''}) ks)"
  by (rule arg_cong [where f = uniq], rule filter_cong [OF refl]) auto


lemma special_key_present:
  "''_collection'' \<in> set (uniq (filter (\<lambda>k. k \<notin> set excludeKeys) ks)) \<longleftrightarrow> ''_collection'' \<in> set ks"
  "''ai_summary'' \<in> set (uniq (filter (\<lambda>k. k \<notin> set excludeKeys) ks)) \<longleftrightarrow> ''ai_summary'' \<in> set ks"
  "''Link'' \<in> set (uniq (filter (\<lambda>k. k \<notin> set excludeKeys) ks)) \<longleftrightarrow> ''Link'' \<in> set ks"
  by (simp_all add: set_uniq excludeKeys_def)

lemma orderedKeys_eq:
  "orderedKeys (uniq (filter (\<lambda>k. k \<notin> set excludeKeys) ks)) =
     (if ''_collection'' \<in> set ks then [''_collection''] else [])
      @ uniq (filter (\<lambda>k. k \<notin> {''_id'', ''_source'', ''_collection'', ''ai_summary'', ''Link''}) ks)
      @ (if ''ai_summary'' \<in> set ks then [''ai_summary''] else [])
      @ (if ''Link'' \<in> set ks then [''Link''] else [])"
proof (cases "''_collection'' \<in> set ks")
  case True
  then show ?thesis
    unfolding orderedKeys_def Let_def special_key_present ordered_rest_filter ordered_rest_without_collection by simp
next
  case False
  then show ?thesis
    unfolding orderedKeys_def Let_def special_key_present ordered_rest_filter ordered_rest_no_collection [OF False, symmetric] by simp
qed


lemma rest_has_no_special_key:
  "''_collection'' \<notin> set (uniq (filter (\<lambda>k. k \<notin> {''_id'', ''_source'', ''_collection'', ''ai_summary'', ''Link''}) ks))"
  "''ai_summary'' \<notin> set (uniq (filter (\<lambda>k. k \<notin> {''_id'', ''_source'', ''_collection'', ''ai_summary'', ''Link''}) ks))"
  "''Link'' \<notin> set (uniq (filter (\<lambda>k. k \<notin> {''_id'', ''_source'', ''_collection'', ''ai_summary'', ''Link''}) ks))"
  "''_id'' \<notin> set (uniq (filter (\<lambda>k. k \<notin> {''_id'', ''_source'', ''_collection'', ''ai_summary'', ''Link''}) ks))"
  "''_source'' \<notin> set (uniq (filter (\<lambda>k. k \<notin> {''_id'', ''_source'', ''_collection'', ''ai_summary'', ''Link''}) ks))"
  by (simp_all add: set_uniq)

lemma cols_distinct:
  "distinct ((if ''_collection'' \<in> set ks then [''_collection''] else [])
      @ uniq (filter (\<lambda>k. k \<notin> {''_id'', ''_source'', ''_collection'', ''ai_summary'', ''Link''}) ks)
      @ (if ''ai_summary'' \<in> set ks then [''ai_summary''] else [])
      @ (if ''Link'' \<in> set ks then [''Link''] else []))"
  using rest_has_no_special_key [of ks] distinct_uniq [of "filter (\<lambda>k. k \<notin> {''_id'', ''_source'', ''_collection'', ''ai_summary'', ''Link''}) ks"]
  by simp

lemma cols_no_internal:
  "''_id'' \<notin> set ((if ''_collection'' \<in> set ks then [''_collection''] else [])
      @ uniq (filter (\<lambda>k. k \<notin> {''_id'', ''_source'', ''_collection'', ''ai_summary'', ''Link''}) ks)
      @ (if ''ai_summary'' \<in> set ks then [''ai_summary''] else [])
      @ (if ''Link'' \<in> set ks then [''Link''] else []))"
  "''_source'' \<notin> set ((if ''_collection'' \<in> set ks then [''_collection''] else [])
      @ uniq (filter (\<lambda>k. k \<notin> {''_id'', ''_source'', ''_collection'', ''ai_summary'', ''Link''}) ks)
      @ (if ''ai_summary'' \<in> set ks then [''ai_summary''] else [])
      @ (if ''Link'' \<in> set ks then [''Link''] else []))"
  using rest_has_no_special_key [of ks] by simp_all

lemma uniq_first_occurrence:
  "uniq xs = map (\<lambda>i. xs ! i) (filter (\<lambda>i. xs ! i \<notin> set (take i xs)) [0..<length xs])"
  using uniq_acc_first [of "[]" xs] by (simp add: uniq_def)

lemma uniq_filter_first_occurrence:
  "uniq (filter P xs) =
     map (\<lambda>i. xs ! i) (filter (\<lambda>i. P (xs ! i) \<and> xs ! i \<notin> set (take i xs)) [0..<length xs])"
proof -
  have "uniq (filter P xs) = filter P (uniq xs)"
    by (simp add: uniq_filter)
  also have "\<dots> = filter P (map (\<lambda>i. xs ! i) (filter (\<lambda>i. xs ! i \<notin> set (take i xs)) [0..<length xs]))"
    by (simp only: uniq_first_occurrence [symmetric])
  also have "\<dots> = map (\<lambda>i. xs ! i) (filter (\<lambda>i. P (xs ! i) \<and> xs ! i \<notin> set (take i xs)) [0..<length xs])"
    by (simp add: filter_map comp_def conj_commute)
  finally show ?thesis .
qed

lemma formatResults_enh_rows:
  assumes "rows \<noteq> []" and "columns_enh (map JObj rows) = Inr cols"
  shows \<open>formatResults_enh (map JObj rows) summary data =
       (case collections_block summary data of
          Inl e \<Rightarrow> Inl e
        | Inr block \<Rightarrow>
            Inr (JStr (
              (if truthy summary
               then summary_div (replace_char (CHR 0x0A) ''<br>'' (escapeHtml_enh summary))
               else []) @
              block @
              ''<div style="overflow-x: auto; margin: 1rem 0; border-radius:'' @
              '' 0.5rem;">'' @
              ''<table style="width: 100%; border-collapse: collapse; min-wi'' @
              ''dth: 800px; font-size: 0.9rem;">'' @
              ''<tr>'' @ concat (map th_enh cols) @ ''</tr>'' @
              concat (map (\<lambda>r. ''<tr>'' @ concat (map (td_enh (JObj r)) cols) @ ''</tr>'') rows) @
              ''</table>'' @
              ''</div>'' @
              download_button_enh)))\<close>
  using assms unfolding formatResults_enh_def
  by (simp add: tr_enh_def comp_def split: sum.splits)


text \<open>
  Claim C10 (column order of the enhanced \<open>formatResults\<close>). For a non-empty list of
  row objects, whose keys in the order of the rows are \<open>ks\<close>, \<open>formatResults\<close> returns
  (or throws what the collections block throws) the page fragment whose table has one
  header cell per column and, in every row, one cell per column, in the column order
  \<open>cols\<close>: \<^verbatim>\<open>_collection\<close> first when some row has it; then the remaining keys, that
  is every position of \<open>ks\<close> whose key is none of \<^verbatim>\<open>_id\<close>, \<^verbatim>\<open>_source\<close>,
  \<^verbatim>\<open>_collection\<close>, \<^verbatim>\<open>ai_summary\<close>, \<^verbatim>\<open>Link\<close> and does not occur at an earlier
  position, in increasing order of position; then \<^verbatim>\<open>ai_summary\<close> and \<^verbatim>\<open>Link\<close>, in that
  order, when some row has them. \<^verbatim>\<open>_id\<close> and \<^verbatim>\<open>_source\<close> are never columns and no
  column is repeated.
\<close>

theorem formatResults_enh_columns:
  assumes "rows \<noteq> []" and "ks = concat (map (map fst) rows)"
  shows \<open>\<exists>cols rest.
     formatResults_enh (map JObj rows) summary data =
       (case collections_block summary data of
          Inl e \<Rightarrow> Inl e
        | Inr block \<Rightarrow>
            Inr (JStr (
              (if truthy summary
               then summary_div (replace_char (CHR 0x0A) ''<br>'' (escapeHtml_enh summary))
               else []) @
              block @
              ''<div style="overflow-x: auto; margin: 1rem 0; border-radius:'' @
              '' 0.5rem;">'' @
              ''<table style="width: 100%; border-collapse: collapse; min-wi'' @
              ''dth: 800px; font-size: 0.9rem;">'' @
              ''<tr>'' @ concat (map th_enh cols) @ ''</tr>'' @
              concat (map (\<lambda>r. ''<tr>'' @ concat (map (td_enh (JObj r)) cols) @ ''</tr>'') rows) @
              ''</table>'' @
              ''</div>'' @
              download_button_enh)))
     \<and> cols = (if ''_collection'' \<in> set ks then [''_collection''] else [])
            @ rest
            @ (if ''ai_summary'' \<in> set ks then [''ai_summary''] else [])
            @ (if ''Link'' \<in> set ks then [''Link''] else [])
     \<and> rest = map (\<lambda>i. ks ! i)
                (filter (\<lambda>i. ks ! i \<notin> {''_id'', ''_source'', ''_collection'', ''ai_summary'', ''Link''}
                              \<and> ks ! i \<notin> set (take i ks)) [0..<length ks])
     \<and> ''_id'' \<notin> set cols \<and> ''_source'' \<notin> set cols \<and> distinct cols\<close>
proof -
  let ?rest = "uniq (filter (\<lambda>k. k \<notin> {''_id'', ''_source'', ''_collection'', ''ai_summary'', ''Link''}) ks)"
  let ?cols = "(if ''_collection'' \<in> set ks then [''_collection''] else [])
            @ ?rest
            @ (if ''ai_summary'' \<in> set ks then [''ai_summary''] else [])
            @ (if ''Link'' \<in> set ks then [''Link''] else [])"
  have c: "columns_enh (map JObj rows) = Inr ?cols"
    unfolding assms(2)
    by (simp only: columns_enh_def flat_keys_excl_objects sum.case orderedKeys_eq)
  have r: "?rest = map (\<lambda>i. ks ! i)
                (filter (\<lambda>i. ks ! i \<notin> {''_id'', ''_source'', ''_collection'', ''ai_summary'', ''Link''}
                              \<and> ks ! i \<notin> set (take i ks)) [0..<length ks])"
    by (rule uniq_filter_first_occurrence)
  show ?thesis
  proof (intro exI conjI)
    show \<open>formatResults_enh (map JObj rows) summary data =
       (case collections_block summary data of
          Inl e \<Rightarrow> Inl e
        | Inr block \<Rightarrow>
            Inr (JStr (
              (if truthy summary
               then summary_div (replace_char (CHR 0x0A) ''<br>'' (escapeHtml_enh summary))
               else []) @
              block @
              ''<div style="overflow-x: auto; margin: 1rem 0; border-radius:'' @
              '' 0.5rem;">'' @
              ''<table style="width: 100%; border-collapse: collapse; min-wi'' @
              ''dth: 800px; font-size: 0.9rem;">'' @
              ''<tr>'' @ concat (map th_enh ?cols) @ ''</tr>'' @
              concat (map (\<lambda>r. ''<tr>'' @ concat (map (td_enh (JObj r)) ?cols) @ ''</tr>'') rows) @
              ''</table>'' @
              ''</div>'' @
              download_button_enh)))\<close>
      using assms(1) c by (rule formatResults_enh_rows)
    show "?cols = (if ''_collection'' \<in> set ks then [''_collection''] else [])
            @ ?rest
            @ (if ''ai_summary'' \<in> set ks then [''ai_summary''] else [])
            @ (if ''Link'' \<in> set ks then [''Link''] else [])"
      by (rule refl)
    show "?rest = map (\<lambda>i. ks ! i)
                (filter (\<lambda>i. ks ! i \<notin> {''_id'', ''_source'', ''_collection'', ''ai_summary'', ''Link''}
                              \<and> ks ! i \<notin> set (take i ks)) [0..<length ks])"
      by (rule r)
    show "''_id'' \<notin> set ?cols" by (rule cols_no_internal)
    show "''_source'' \<notin> set ?cols" by (rule cols_no_internal)
    show "distinct ?cols" by (rule cols_distinct)
  qed
qed

theorem formatResults_enh_columns_witness:
  \<open>formatResults_enh
     (map JObj [[(''b'', JNull), (''Link'', JNull), (''_id'', JNull), (''a'', JNull)],
                [(''ai_summary'', JNull), (''a'', JNull), (''_collection'', JNull), (''c'', JNull)]])
     (JStr ''Found 2'') JNull =
   Inr (JStr (
     summary_div (replace_char (CHR 0x0A) ''<br>'' (escapeHtml_enh (JStr ''Found 2''))) @
     ''<div style="overflow-x: auto; margin: 1rem 0; border-radius:'' @
     '' 0.5rem;">'' @
     ''<table style="width: 100%; border-collapse: collapse; min-wi'' @
     ''dth: 800px; font-size: 0.9rem;">'' @
     ''<tr>'' @
     concat (map th_enh [''_collection'', ''b'', ''a'', ''c'', ''ai_summary'', ''Link'']) @
     ''</tr>'' @
     concat (map (\<lambda>r. ''<tr>'' @
                   concat (map (td_enh (JObj r))
                     [''_collection'', ''b'', ''a'', ''c'', ''ai_summary'', ''Link'']) @ ''</tr>'')
       [[(''b'', JNull), (''Link'', JNull), (''_id'', JNull), (''a'', JNull)],
        [(''ai_summary'', JNull), (''a'', JNull), (''_collection'', JNull), (''c'', JNull)]]) @
     ''</table>'' @
     ''</div>'' @
     download_button_enh))\<close>
  using formatResults_enh_columns
    [of "[[(''b'', JNull), (''Link'', JNull), (''_id'', JNull), (''a'', JNull)],
          [(''ai_summary'', JNull), (''a'', JNull), (''_collection'', JNull), (''c'', JNull)]]"
        "[''b'', ''Link'', ''_id'', ''a'', ''ai_summary'', ''a'', ''_collection'', ''c'']"
        "JStr ''Found 2''" JNull]
  by (simp add: collections_block_def upt_rec nth_Cons')

subsection \<open>Truncation and table cells\<close>

lemma truncateText_length: "length (truncateText v (int n)) \<le> n + 3"
  by (simp add: truncateText_def Let_def)

lemma truncated_cell_content:
  "n \<le> b \<Longrightarrow>
   \<exists>t. cellContent (truncated_cell text n style) = escapeHtml_enh (JStr t) \<and> length t \<le> b + 3"
  using truncateText_length [of "JStr text" n] by (auto simp: truncated_cell_def)

lemma formatCell_truncated:
  assumes "\<not> (nullish (js_index r k) \<or> js_index r k = JStr [])"
    and "\<not> (k = ''Link'' \<and> truthy (js_index r k))"
    and "k \<noteq> ''_collection''"
  shows "\<exists>t. cellContent (formatCell r k) = escapeHtml_enh (JStr t)
             \<and> length t \<le> cell_budget (js_index r k) k + 3"
proof -
  consider (summary) "k = ''ai_summary''" "truthy (js_index r k)"
    | (abstract) "\<not> (k = ''ai_summary'' \<and> truthy (js_index r k))" "k = ''Abstract'' \<or> k = ''Description''"
    | (object) "\<not> (k = ''ai_summary'' \<and> truthy (js_index r k))" "\<not> (k = ''Abstract'' \<or> k = ''Description'')"
        "is_object (js_index r k)"
    | (plain) "\<not> (k = ''ai_summary'' \<and> truthy (js_index r k))" "\<not> (k = ''Abstract'' \<or> k = ''Description'')"
        "\<not> is_object (js_index r k)"
    by blast
  then show ?thesis
  proof cases
    case summary
    have "formatCell r k = truncated_cell (js_String (js_index r k)) 250 summary_style"
      using assms summary by (auto simp add: formatCell_def Let_def)
    moreover have "250 \<le> cell_budget (js_index r k) k"
      using summary by (simp add: cell_budget_def)
    ultimately show ?thesis using truncated_cell_content by simp
  next
    case abstract
    have "formatCell r k = truncated_cell (js_String (js_index r k)) 250 abstract_style"
      using assms abstract by (auto simp add: formatCell_def Let_def)
    moreover have "250 \<le> cell_budget (js_index r k) k"
      using abstract by (simp add: cell_budget_def)
    ultimately show ?thesis using truncated_cell_content by simp
  next
    case object
    have "formatCell r k = truncated_cell (json_stringify (js_index r k)) 150 json_style"
      using assms object by (auto simp add: formatCell_def Let_def)
    moreover have "150 \<le> cell_budget (js_index r k) k"
      using object by (simp add: cell_budget_def)
    ultimately show ?thesis using truncated_cell_content by simp
  next
    case plain
    have "formatCell r k = truncated_cell (js_String (js_index r k)) (if isLongField k then 80 else 50)
             (if isLongField k then long_field_style else [])"
      using assms plain by (auto simp add: formatCell_def Let_def)
    moreover have "(if isLongField k then 80 else 50) \<le> cell_budget (js_index r k) k"
      using plain by (simp add: cell_budget_def)
    ultimately show ?thesis using truncated_cell_content by simp
  qed
qed

text \<open>
  Claim C9, amended (\<open>truncateText\<close> and the cells of the enhanced table).
  \<open>truncateText\<close> gives the empty string for a falsy value, the stringified value when
  its length is at most \<open>maxLength\<close>, and otherwise (for \<open>maxLength\<close> not negative) its
  first \<open>maxLength\<close> characters followed by three dots, \<open>maxLength + 3\<close> characters in
  all. A cell of the enhanced table holds the fixed \<^verbatim>\<open>N/A\<close> mark for a missing or empty
  value, the fixed \<^verbatim>\<open>View\<close> link in the \<^verbatim>\<open>Link\<close> column, the whole escaped value in
  the \<^verbatim>\<open>_collection\<close> column, and in every other case the escaped form of a text of
  at most \<open>cell_budget + 3\<close> characters.
\<close>

theorem truncateText_and_cells:
  "(\<not> truthy v \<longrightarrow> truncateText v n = [])
   \<and> (truthy v \<and> int (length (js_String v)) \<le> n \<longrightarrow> truncateText v n = js_String v)
   \<and> (truthy v \<and> 0 \<le> n \<and> n < int (length (js_String v)) \<longrightarrow>
        truncateText v n = take (nat n) (js_String v) @ ''...''
        \<and> int (length (truncateText v n)) = n + 3)
   \<and> (if nullish (js_index r k) \<or> js_index r k = JStr [] then
         cellContent (formatCell r k) = na_span
       else if k = ''Link'' \<and> truthy (js_index r k) then
         cellContent (formatCell r k) = link_html (js_String (js_index r k))
       else if k = ''_collection'' then
         cellContent (formatCell r k) = escapeHtml_enh (JStr (js_String (js_index r k)))
       else \<exists>t. cellContent (formatCell r k) = escapeHtml_enh (JStr t)
                 \<and> length t \<le> cell_budget (js_index r k) k + 3)"
proof (intro conjI)
  show "\<not> truthy v \<longrightarrow> truncateText v n = []"
    by (simp add: truncateText_def)
  show "truthy v \<and> int (length (js_String v)) \<le> n \<longrightarrow> truncateText v n = js_String v"
    by (simp add: truncateText_def Let_def)
  show "truthy v \<and> 0 \<le> n \<and> n < int (length (js_String v)) \<longrightarrow>
        truncateText v n = take (nat n) (js_String v) @ ''...''
        \<and> int (length (truncateText v n)) = n + 3"
    by (auto simp: truncateText_def Let_def)
  show "if nullish (js_index r k) \<or> js_index r k = JStr [] then
         cellContent (formatCell r k) = na_span
       else if k = ''Link'' \<and> truthy (js_index r k) then
         cellContent (formatCell r k) = link_html (js_String (js_index r k))
       else if k = ''_collection'' then
         cellContent (formatCell r k) = escapeHtml_enh (JStr (js_String (js_index r k)))
       else \<exists>t. cellContent (formatCell r k) = escapeHtml_enh (JStr t)
                 \<and> length t \<le> cell_budget (js_index r k) k + 3"
  proof (cases "nullish (js_index r k) \<or> js_index r k = JStr []")
    case True
    then show ?thesis by (auto simp: formatCell_def Let_def)
  next
    case na: False
    show ?thesis
    proof (cases "k = ''Link'' \<and> truthy (js_index r k)")
      case True
      then show ?thesis using na by (auto simp add: formatCell_def Let_def)
    next
      case link: False
      show ?thesis
      proof (cases "k = ''_collection''")
        case True
        then show ?thesis using na by (auto simp add: formatCell_def Let_def)
      next
        case False
        show ?thesis
          unfolding if_not_P [OF na] if_not_P [OF link] if_not_P [OF False]
          by (rule formatCell_truncated [OF na link False])
      qed
    qed
  qed
qed

theorem truncateText_and_cells_witness:
  "truncateText JNull 5 = [] \<and> truncateText (JStr ''abc'') 5 = ''abc''
   \<and> truncateText (JStr ''abcdefgh'') 5 = ''abcde...''
   \<and> cellContent (formatCell (JObj [(''Year'', JNull)]) ''Year'') = na_span
   \<and> (\<exists>t. cellContent (formatCell (JObj [(''Title'', JStr ''abc'')]) ''Title'')
              = escapeHtml_enh (JStr t) \<and> length t \<le> 83)"
  using truncateText_and_cells [of JNull 5 "JObj [(''Year'', JNull)]" "''Year''"]
    truncateText_and_cells [of "JStr ''abc''" 5 "JObj [(''Title'', JStr ''abc'')]" "''Title''"]
    truncateText_and_cells [of "JStr ''abcdefgh''" 5 "JObj [(''Year'', JNull)]" "''Year''"]
  by (simp add: cell_budget_def isLongField_def)

text \<open>
  The claim as stated bounds every cell by its budget and the ellipsis. The
  \<^verbatim>\<open>_collection\<close> column is not truncated: a value of 300 letters fills its cell with
  all 300, more than the largest budget of 250 and the ellipsis.
\<close>

lemma concat_replicate_single: "concat (replicate n [c]) = replicate n c"
  by (induction n) simp_all

theorem collection_cell_not_truncated:
  "cellContent (formatCell (JObj [(''_collection'', JStr (replicate 300 (CHR ''a'')))]) ''_collection'')
     = replicate 300 (CHR ''a'')"
  by (simp add: formatCell_def escapeHtml_enh_def dom_text_innerHTML_def dom_escape_char_def
      map_replicate concat_replicate_single)

subsection \<open>HTML escaping\<close>

lemma replace_char_append:
  "replace_char c r (xs @ ys) = replace_char c r xs @ replace_char c r ys"
  by (simp add: replace_char_def)

lemma replace_char_concat:
  "replace_char c r (concat (map f s)) = concat (map (\<lambda>x. replace_char c r (f x)) s)"
  by (induction s) (simp_all add: replace_char_append, simp add: replace_char_def)

lemma replace_char_as_map: "replace_char c r s = concat (map (\<lambda>x. replace_char c r [x]) s)"
  by (induction s) (simp_all add: replace_char_def)

lemma five_replacements_char:
  "replace_char squote ''&#39;''
     (replace_char dquote ''&quot;''
       (replace_char (CHR ''>'') ''&gt;''
         (replace_char (CHR ''<'') ''&lt;''
           (replace_char (CHR ''&'') ''&amp;'' [x])))) = escape_char_legacy x"
  by (simp add: replace_char_def escape_char_legacy_def dquote_def squote_def)

lemma five_replacements:
  "replace_char squote ''&#39;''
     (replace_char dquote ''&quot;''
       (replace_char (CHR ''>'') ''&gt;''
         (replace_char (CHR ''<'') ''&lt;''
           (replace_char (CHR ''&'') ''&amp;'' s)))) = concat (map escape_char_legacy s)"
proof -
  have "replace_char (CHR ''&'') ''&amp;'' s = concat (map (\<lambda>x. replace_char (CHR ''&'') ''&amp;'' [x]) s)"
    by (rule replace_char_as_map)
  then show ?thesis
    by (simp only: replace_char_concat five_replacements_char)
qed

lemma escapeHtml_legacy_chars:
  "escapeHtml_legacy v = (if nullish v then [] else concat (map escape_char_legacy (js_String v)))"
  by (simp add: escapeHtml_legacy_def five_replacements)

lemma escape_char_legacy_plain:
  "set (escape_char_legacy c) \<inter> {CHR ''<'', CHR ''>'', dquote, squote} = {}"
  by (simp add: escape_char_legacy_def dquote_def squote_def)

lemma escaped_plain:
  "set (concat (map escape_char_legacy s)) \<inter> {CHR ''<'', CHR ''>'', dquote, squote} = {}"
  using escape_char_legacy_plain by (induction s) (simp_all add: Int_Un_distrib2)

lemma amp_ok_escape_char: "amp_ok rest \<Longrightarrow> amp_ok (escape_char_legacy c @ rest)"
  by (simp add: escape_char_legacy_def entities_def dquote_def squote_def)

lemma amp_ok_escaped: "amp_ok (concat (map escape_char_legacy s))"
  by (induction s) (simp_all add: amp_ok_escape_char)

lemma amp_ok_nth:
  "amp_ok s \<Longrightarrow> i < length s \<Longrightarrow> s ! i = CHR ''&'' \<Longrightarrow> list_ex (starts_with (drop i s)) entities"
proof (induction s arbitrary: i)
  case Nil
  then show ?case by simp
next
  case (Cons c cs)
  show ?case
  proof (cases i)
    case 0
    then show ?thesis using Cons.prems by simp
  next
    case (Suc j)
    then show ?thesis using Cons.prems Cons.IH [of j] by simp
  qed
qed

text \<open>
  The legacy \<open>escapeHtml\<close>: for every value the result has no \<^verbatim>\<open><\<close>, \<^verbatim>\<open>>\<close>, double
  or single quote, and each ampersand in it starts one of the five entities.
\<close>

lemma escapeHtml_legacy_safe:
  "set (escapeHtml_legacy v) \<inter> {CHR ''<'', CHR ''>'', dquote, squote} = {}
   \<and> amp_ok (escapeHtml_legacy v)"
  using escaped_plain [of "js_String v"] amp_ok_escaped [of "js_String v"]
  by (simp add: escapeHtml_legacy_chars)

text \<open>
  Claim C3 (\<open>escapeHtml\<close> leaves no \<^verbatim>\<open><\<close>, \<^verbatim>\<open>>\<close>, double or single quote, so that
  cell values are shown as text). The enhanced \<open>escapeHtml\<close> returns a double quote
  unchanged, where the legacy one writes \<^verbatim>\<open>&quot;\<close>; and the enhanced \<open>formatResults\<close>
  puts its result between the double quotes of an attribute. For a row whose
  \<^verbatim>\<open>Link\<close> is the text \<^verbatim>\<open>" onmouseover="alert(1)\<close> the cell is an anchor with an empty
  \<^verbatim>\<open>href\<close> and an \<^verbatim>\<open>onmouseover\<close> attribute taken from the data.
\<close>

theorem link_attribute_injection:
  \<open>escapeHtml_enh (JStr ''"'') = ''"''
   \<and> escapeHtml_legacy (JStr ''"'') = ''&quot;''
   \<and> cellContent (formatCell (JObj [(''Link'', JStr ''" onmouseover="alert(1)'')]) ''Link'') =
     ''<a href="" onmouseover="alert(1)" target="_blank" rel="noope'' @
     ''ner noreferrer" style="color: var(--accent-light); text-deco'' @
     ''ration: underline; white-space: nowrap;">View</a>''\<close>
  by (simp add: formatCell_def link_html_def escapeHtml_enh_def dom_text_innerHTML_def
      dom_escape_char_def escapeHtml_legacy_def replace_char_def dquote_def squote_def)

subsection \<open>Blank input and stored download data\<close>

lemma trim_empty_iff: "trim s = [] \<longleftrightarrow> list_all js_whitespace s"
proof
  assume "trim s = []"
  then have all: "\<forall>x \<in> set (dropWhile js_whitespace s). js_whitespace x"
    by (simp add: trim_def dropWhile_eq_Nil_conv)
  have "dropWhile js_whitespace s = []"
  proof (rule ccontr)
    assume ne: "dropWhile js_whitespace s \<noteq> []"
    then have "\<not> js_whitespace (hd (dropWhile js_whitespace s))"
      by (rule hd_dropWhile)
    moreover have "hd (dropWhile js_whitespace s) \<in> set (dropWhile js_whitespace s)"
      using ne by simp
    ultimately show False using all by blast
  qed
  then show "list_all js_whitespace s"
    by (simp add: dropWhile_eq_Nil_conv list_all_iff)
next
  assume "list_all js_whitespace s"
  then have d: "dropWhile js_whitespace s = []"
    by (simp add: dropWhile_eq_Nil_conv list_all_iff)
  show "trim s = []" unfolding trim_def d by simp
qed

text \<open>
  Claim C8 (blank input). When the input consists of white space only (the empty input
  included), \<open>sendQuery\<close> and \<open>sendMessage\<close> perform nothing: no request, no
  message. \<open>updateSendButton\<close> sets the disabled flag of the send button to "the
  trimmed input is empty", which is the case exactly for such inputs.
\<close>

theorem blank_input_sends_nothing:
  "(list_all js_whitespace input \<longrightarrow>
      sendQuery input now1 now2 now3 fr = [] \<and> sendMessage currentMode input stamp1 stamp2 fr = [])
   \<and> updateSendButton input = [SetDisabled ''send-btn'' (trim input = [])]
   \<and> (trim input = [] \<longleftrightarrow> list_all js_whitespace input)"
  using trim_empty_iff [of input]
  by (simp add: sendQuery_def sendMessage_def updateSendButton_def)

theorem blank_input_sends_nothing_witness:
  "sendQuery ''  '' 1 2 3 (Inl (Thrown ''offline'')) = []
   \<and> sendMessage ''database'' ''  '' (1, ''a'') (2, ''b'') (Inl (Thrown ''offline'')) = []
   \<and> updateSendButton ''  '' = [SetDisabled ''send-btn'' True]"
  using blank_input_sends_nothing [of "''  ''" 1 2 3 "Inl (Thrown ''offline'')" "''database''"
      "(1, ''a'')" "(2, ''b'')"]
  by (simp add: js_whitespace_def)

text \<open>
  Claim C7 (download data of a message). \<open>addMessage\<close> called with an array stores
  that array under the identifier of the message and leaves the entries of other
  identifiers alone; a click on the download button of the message runs
  \<open>downloadCSV\<close> on the stored array, which for a non-empty array of row objects
  downloads the CSV text of exactly these rows; a click for an identifier without entry
  gives the toast \<^verbatim>\<open>No data available for download\<close> and no download.
\<close>

theorem download_data_map:
  "messageDownloadData (addMessage st messageId text type (JArr rows)) messageId = Some rows
   \<and> download_click now (addMessage st messageId text type (JArr rows)) messageId
       = downloadCSV_enh now rows
   \<and> (other \<noteq> messageId \<longrightarrow>
        messageDownloadData (addMessage st messageId text type (JArr rows)) other
          = messageDownloadData st other)
   \<and> (objs \<noteq> [] \<longrightarrow>
        download_click now (addMessage st messageId text type (JArr (map JObj objs))) messageId
          = Inr [Download (csv_filename now)
                   (csv_text (uniq (concat (map (map fst) objs))) (map JObj objs)),
                 Toast ''CSV downloaded successfully!'' ''success''])
   \<and> (messageDownloadData st other = None \<longrightarrow>
        download_click now st other = Inr [Toast ''No data available for download'' ''error''])"
  by (simp add: addMessage_def download_click_def downloadCSV_enh_def flat_keys_objects)

theorem download_data_map_witness:
  "download_click 5 (addMessage \<lparr>messageDownloadData = Map.empty\<rparr> ''msg-1'' (JStr ''t'') ''assistant''
        (JArr [JObj [(''a'', JNum 1)]])) ''msg-1''
     = Inr [Download ''query_results_5.csv'' (''a\<newline>'' @ [dquote] @ ''1'' @ [dquote]),
            Toast ''CSV downloaded successfully!'' ''success'']
   \<and> download_click 5 \<lparr>messageDownloadData = Map.empty\<rparr> ''msg-2''
     = Inr [Toast ''No data available for download'' ''error'']"
  using download_data_map [of "\<lparr>messageDownloadData = Map.empty\<rparr>" "''msg-1''" "JStr ''t''"
      "''assistant''" "[JObj [(''a'', JNum 1)]]" 5 "''msg-2''" "[[(''a'', JNum 1)]]"]
  by (simp add: downloadCSV_enh_def csv_filename_def csv_text_def csv_line_def csv_field_def
      csv_quote_def csv_value_def double_quotes_def js_coalesce_def dquote_def dec_digit uniq_def)

subsection \<open>Running a block of statements\<close>

lemma and_then_emit: "and_then (emit es) f = (es @ fst (f ()), snd (f ()))"
  by (simp add: and_then_def emit_def split: prod.splits)

lemma and_then_attempt_Inl: "and_then (attempt (Inl e)) f = ([], Inl e)"
  by (simp add: and_then_def attempt_def)

lemma and_then_attempt_Inr: "and_then (attempt (Inr x)) f = f x"
  by (simp add: and_then_def attempt_def split: prod.splits)

lemma and_then_ret: "and_then (ret x) f = f x"
  by (simp add: and_then_def ret_def split: prod.splits)

lemma and_then_Inl: "and_then (es, Inl e) f = (es, Inl e)"
  by (simp add: and_then_def)

lemma and_then_Inr: "and_then (es, Inr x) f = (es @ fst (f x), snd (f x))"
  by (simp add: and_then_def split: prod.splits)

lemma fst_and_then:
  "fst (and_then m f) = fst m @ (case snd m of Inl e \<Rightarrow> [] | Inr x \<Rightarrow> fst (f x))"
  by (simp add: and_then_def split: prod.splits sum.splits)

lemma snd_and_then:
  "snd (and_then m f) = (case snd m of Inl e \<Rightarrow> Inl e | Inr x \<Rightarrow> snd (f x))"
  by (simp add: and_then_def split: prod.splits sum.splits)

lemma try_catch_eq:
  "try_catch body h = fst body @ (case snd body of Inl e \<Rightarrow> h e | Inr x \<Rightarrow> [])"
  by (simp add: try_catch_def split: prod.splits sum.splits)

lemmas run_simps = and_then_Inl and_then_Inr emit_def attempt_def ret_def try_catch_eq

lemma fetches_append: "fetches (xs @ ys) = fetches xs + fetches ys"
  by (simp add: fetches_def)

lemma fetches_Nil: "fetches [] = 0"
  by (simp add: fetches_def)

lemma fetches_Cons: "fetches (e # es) = (if is_fetch e then 1 else 0) + fetches es"
  by (simp add: fetches_def)

lemma quiet_and_then:
  "fetches (fst m) = 0 \<Longrightarrow> (\<And>x. fetches (fst (f x)) = 0) \<Longrightarrow> fetches (fst (and_then m f)) = 0"
  by (simp add: fst_and_then fetches_append fetches_Nil split: sum.splits)

lemma quiet_attempt: "fetches (fst (attempt r)) = 0"
  by (simp add: attempt_def fetches_Nil)

lemma quiet_ret: "fetches (fst (ret x)) = 0"
  by (simp add: ret_def fetches_Nil)

lemma quiet_emit: "fetches es = 0 \<Longrightarrow> fetches (fst (emit es)) = 0"
  by (simp add: emit_def)

lemma quiet_attempt_then:
  "(\<And>x. fetches (fst (f x)) = 0) \<Longrightarrow> fetches (fst (and_then (attempt r) f)) = 0"
  by (rule quiet_and_then [OF quiet_attempt])

lemma render_enh_quiet: "fetches (fst (render_enh currentMode stamp2 data)) = 0"
  unfolding render_enh_def
  by (intro quiet_attempt_then)
     (auto intro!: quiet_attempt_then quiet_emit simp: fetches_Cons fetches_Nil
        split: jsval.splits list.splits)

lemma one_fetch_then:
  "is_fetch req \<Longrightarrow> fetches (fst (f ())) = 0 \<Longrightarrow> fetches (fst (and_then (emit [req]) f)) = 1"
  by (simp add: and_then_emit fetches_append fetches_Cons fetches_Nil)

lemma is_fetch_request_enh: "is_fetch (request_enh currentMode question)"
  by (simp add: request_enh_def)

lemma sendMessage_try_fetches: "fetches (fst (sendMessage_try currentMode question stamp2 fr)) = 1"
  unfolding sendMessage_try_def
  by (rule one_fetch_then [OF is_fetch_request_enh])
     (auto intro!: quiet_attempt_then quiet_and_then quiet_emit render_enh_quiet
        simp: fetches_Cons fetches_Nil split: sum.splits)

lemma resultMessage_legacy_quiet: "fetches (fst (resultMessage_legacy data)) = 0"
  unfolding resultMessage_legacy_def
  by (auto intro!: quiet_attempt_then quiet_and_then quiet_emit quiet_ret
        simp: fetches_Cons fetches_Nil split: jsval.splits list.splits)

lemma sendQuery_try_fetches: "fetches (fst (sendQuery_try question loadingMsgId now3 fr)) = 1"
  unfolding sendQuery_try_def
  by (rule one_fetch_then)
     (auto intro!: quiet_attempt_then quiet_and_then quiet_emit quiet_ret resultMessage_legacy_quiet
        simp: fetches_Cons fetches_Nil)

lemma setup_try_fetches: "fetches (fst (setup_try_legacy fr)) = 1"
  unfolding setup_try_legacy_def
  by (rule one_fetch_then)
     (auto intro!: quiet_attempt_then quiet_and_then quiet_emit quiet_attempt
        simp: fetches_Cons fetches_Nil)

lemma import_try_fetches: "fetches (fst (import_try_legacy file fr)) = 1"
  unfolding import_try_legacy_def
  by (rule one_fetch_then)
     (auto intro!: quiet_attempt_then quiet_and_then quiet_emit quiet_attempt
        simp: fetches_Cons fetches_Nil)

lemma csv_change_try_fetches: "fetches (fst (csv_change_try file fr)) = 1"
  unfolding csv_change_try_def
  by (rule one_fetch_then)
     (auto intro!: quiet_attempt_then quiet_and_then quiet_emit quiet_attempt
        simp: fetches_Cons fetches_Nil)

lemma loadCollections_try_fetches: "fetches (fst (loadCollections_try fr)) = 1"
  unfolding loadCollections_try_def
  by (rule one_fetch_then)
     (auto intro!: quiet_attempt_then quiet_and_then quiet_emit quiet_attempt
        simp: fetches_Cons fetches_Nil)

lemma list_all_and_then:
  "list_all P (fst m) \<Longrightarrow> (\<And>x. list_all P (fst (f x))) \<Longrightarrow> list_all P (fst (and_then m f))"
  by (simp add: fst_and_then split: sum.splits)

lemma list_all_attempt: "list_all P (fst (attempt r))"
  by (simp add: attempt_def)

lemma list_all_ret: "list_all P (fst (ret x))"
  by (simp add: ret_def)

lemma list_all_emit: "list_all P es \<Longrightarrow> list_all P (fst (emit es))"
  by (simp add: emit_def)

lemma list_all_attempt_then:
  "(\<And>x. list_all P (fst (f x))) \<Longrightarrow> list_all P (fst (and_then (attempt r) f))"
  by (rule list_all_and_then [OF list_all_attempt])

lemma list_all_try_catch:
  "list_all P (fst body) \<Longrightarrow> (\<And>e. list_all P (h e)) \<Longrightarrow> list_all P (try_catch body h)"
  by (simp add: try_catch_eq split: sum.splits)

lemma render_enh_no_reload:
  "list_all (\<lambda>e. \<not> is_reload_timer e) (fst (render_enh currentMode stamp2 data))"
  unfolding render_enh_def
  by (intro list_all_attempt_then)
     (auto intro!: list_all_attempt_then list_all_emit split: jsval.splits list.splits)

lemma sendMessage_no_reload:
  "list_all (\<lambda>e. \<not> is_reload_timer e) (sendMessage currentMode input stamp1 stamp2 fr)"
  unfolding sendMessage_def sendMessage_try_def Let_def updateSendButton_def
  by (auto intro!: list_all_try_catch list_all_and_then list_all_attempt_then list_all_emit
        list_all_attempt render_enh_no_reload
      simp: request_enh_def split: sum.splits)

lemma resultMessage_legacy_no_reload:
  "list_all (\<lambda>e. \<not> is_reload_timer e) (fst (resultMessage_legacy data))"
  unfolding resultMessage_legacy_def
  by (auto intro!: list_all_attempt_then list_all_and_then list_all_emit list_all_ret
        split: jsval.splits list.splits)

lemma sendQuery_no_reload:
  "list_all (\<lambda>e. \<not> is_reload_timer e) (sendQuery input now1 now2 now3 fr)"
  unfolding sendQuery_def sendQuery_try_def Let_def
  by (auto intro!: list_all_try_catch list_all_and_then list_all_attempt_then list_all_emit
        list_all_attempt list_all_ret resultMessage_legacy_no_reload)

lemma setup_no_reload:
  "list_all (\<lambda>e. \<not> is_reload_timer e) (setup_click_legacy fr)"
  unfolding setup_click_legacy_def setup_try_legacy_def
  by (auto intro!: list_all_try_catch list_all_and_then list_all_attempt_then list_all_emit
        list_all_attempt)

lemma import_no_reload:
  "list_all (\<lambda>e. \<not> is_reload_timer e) (import_click_legacy file fr)"
  unfolding import_click_legacy_def import_try_legacy_def
  by (auto intro!: list_all_try_catch list_all_and_then list_all_attempt_then list_all_emit
        list_all_attempt split: option.splits)

lemma effects_of_downloads:
  "list_all (\<lambda>e. \<not> is_reload_timer e \<and> \<not> is_fetch e) (effects_of (downloadCSV_legacy now data))"
  "list_all (\<lambda>e. \<not> is_reload_timer e \<and> \<not> is_fetch e) (effects_of (downloadCSV_enh now data))"
  by (simp_all add: effects_of_def downloadCSV_legacy_def downloadCSV_enh_def split: sum.splits)

lemma download_click_plain:
  "list_all (\<lambda>e. \<not> is_reload_timer e \<and> \<not> is_fetch e) (effects_of (download_click now st messageId))"
  using effects_of_downloads(2)
  by (simp add: download_click_def effects_of_def split: option.splits)

lemma fetches_zero_iff: "fetches es = 0 \<longleftrightarrow> list_all (\<lambda>e. \<not> is_fetch e) es"
  by (induction es) (simp_all add: fetches_def)

lemma list_all_conjD:
  "list_all (\<lambda>e. P e \<and> Q e) es \<Longrightarrow> list_all P es \<and> list_all Q es"
  by (induction es) simp_all

lemma timer_effects_eq:
  "timer_effects fr2 e = (if is_reload_timer e then loadCollections fr2 else [])"
  by (cases e rule: is_reload_timer.cases) simp_all

lemma no_reload_timers:
  "list_all (\<lambda>e. \<not> is_reload_timer e) es \<Longrightarrow> concat (map (timer_effects fr2) es) = []"
  by (induction es) (simp_all add: timer_effects_eq)

lemma no_reload_not_ex:
  "list_all (\<lambda>e. \<not> is_reload_timer e) es \<Longrightarrow> \<not> list_ex is_reload_timer es"
  by (induction es) simp_all

lemma csv_change_cases:
  "csv_change file fr =
     (case file of
        None \<Rightarrow> []
      | Some f \<Rightarrow>
          [Toast ''Uploading CSV...'' ''info'', Fetch ''POST'' ''/api/import-csv'' (FormFile f)] @
          (case fr of
             Inl e \<Rightarrow> [Toast (upload_failed_text (message e)) ''error'']
           | Inr response \<Rightarrow>
               (case json response of
                  Inl e \<Rightarrow> [Toast (upload_failed_text (message e)) ''error'']
                | Inr data \<Rightarrow>
                    if nullish data then
                      [Toast (upload_failed_text
                         (message (prop_error (if ok response then ''collection'' else ''error'')))) ''error'']
                    else if \<not> ok response then
                      [Toast (upload_failed_text
                         (js_String (js_or (js_index data ''error'') (JStr ''Upload failed'')))) ''error'']
                    else
                      [Toast (upload_ok_text (js_String (js_index data ''collection''))) ''success'',
                       SetProp ''csv-file'' ''value'' [],
                       Timer 500 LoadCollections])))"
  by (simp add: csv_change_def csv_change_try_def run_simps js_get_def
      split: option.splits sum.splits)

lemma csv_change_fetches: "fetches (csv_change file fr) \<le> 1"
  by (simp add: csv_change_cases fetches_def split: option.splits sum.splits)

lemma csv_change_reload:
  "list_ex is_reload_timer (csv_change file fr) \<longleftrightarrow>
     (\<exists>f response data. file = Some f \<and> fr = Inr response \<and> ok response
        \<and> json response = Inr data \<and> \<not> nullish data)"
  by (auto simp add: csv_change_cases split: option.splits sum.splits)

lemma csv_change_timers:
  "concat (map (timer_effects fr2) (csv_change file fr)) =
     (if list_ex is_reload_timer (csv_change file fr) then loadCollections fr2 else [])"
  by (simp add: csv_change_cases split: option.splits sum.splits)

lemma loadCollections_fetches: "fetches (loadCollections fr) = 1"
proof -
  have "fetches (case snd (loadCollections_try fr) of
                   Inl e \<Rightarrow> [SetProp ''collections-list'' ''innerHTML'' collections_error_html]
                 | Inr x \<Rightarrow> []) = 0"
    by (simp add: fetches_def split: sum.splits)
  then show ?thesis
    by (simp add: loadCollections_def try_catch_eq fetches_append loadCollections_try_fetches)
qed

lemma try_catch_fetches:
  "fetches (fst body) = 1 \<Longrightarrow> (\<And>e. fetches (h e) = 0) \<Longrightarrow> fetches (try_catch body h) = 1"
  by (simp add: try_catch_eq fetches_append fetches_Nil split: sum.splits)

lemma setup_fetches: "fetches (setup_click_legacy fr) = 1"
  unfolding setup_click_legacy_def fetches_append
  by (simp add: try_catch_fetches [OF setup_try_fetches] fetches_Cons fetches_Nil)

lemma import_fetches: "fetches (import_click_legacy file fr) \<le> 1"
proof (cases "file")
  case None
  then show ?thesis by (simp add: import_click_legacy_def fetches_Cons fetches_Nil)
next
  case (Some f)
  then show ?thesis
    by (simp add: import_click_legacy_def fetches_append try_catch_fetches [OF import_try_fetches]
        fetches_Cons fetches_Nil)
qed

lemma sendQuery_fetches: "fetches (sendQuery input now1 now2 now3 fr) = (if trim input = [] then 0 else 1)"
  unfolding sendQuery_def Let_def
  by (simp add: fetches_append try_catch_fetches [OF sendQuery_try_fetches] fetches_Cons fetches_Nil)

lemma sendMessage_fetches: "fetches (sendMessage currentMode input stamp1 stamp2 fr) = (if trim input = [] then 0 else 1)"
  unfolding sendMessage_def Let_def updateSendButton_def
  by (simp add: fetches_append try_catch_fetches [OF sendMessage_try_fetches] fetches_Cons fetches_Nil)

lemma handle_fetches: "fetches (handle a fr) \<le> 1"
proof (cases a)
  case (LegacyDownloadClick now rawData)
  then show ?thesis
    using list_all_conjD [OF effects_of_downloads(1) [of now rawData]]
    by (simp add: fetches_zero_iff [symmetric])
next
  case (EnhDownloadClick now st messageId)
  then show ?thesis
    using list_all_conjD [OF download_click_plain [of now st messageId]]
    by (simp add: fetches_zero_iff [symmetric])
qed (simp_all add: setup_fetches import_fetches [simplified] sendQuery_fetches sendMessage_fetches
      csv_change_fetches [simplified] keypress_legacy_def keydown_enh_def switchMode_def newChat_def
      updateSendButton_def document_click_def fetches_Cons fetches_Nil)

lemma handle_no_reload:
  "\<not> (\<exists>file. a = EnhCsvChange file) \<Longrightarrow> list_all (\<lambda>e. \<not> is_reload_timer e) (handle a fr)"
proof (cases a)
  case (LegacyDownloadClick now rawData)
  then show ?thesis
    using list_all_conjD [OF effects_of_downloads(1) [of now rawData]] by simp
next
  case (EnhDownloadClick now st messageId)
  then show ?thesis
    using list_all_conjD [OF download_click_plain [of now st messageId]] by simp
qed (simp_all add: setup_no_reload import_no_reload sendQuery_no_reload sendMessage_no_reload
      keypress_legacy_def keydown_enh_def switchMode_def newChat_def updateSendButton_def
      document_click_def)

subsection \<open>Requests per user action\<close>

text \<open>
  Claim C5 (requests per user action). Whatever the action and the answer of the
  network, the handler of one user action issues at most one request. The only timer
  that leads to a request is the collections reload, which the file-input handler sets
  once the import was answered with an ok status and a parsed body, so that no request
  is outstanding by then; the reload issues exactly one request of its own. An action
  and its timers together issue at most two requests, one after the other.
\<close>

theorem requests_per_action:
  "fetches (handle a fr) \<le> 1
   \<and> fetches (loadCollections fr2) = 1
   \<and> (list_ex is_reload_timer (handle a fr) \<longleftrightarrow>
        (\<exists>f response data. a = EnhCsvChange (Some f) \<and> fr = Inr response \<and> ok response
            \<and> json response = Inr data \<and> \<not> nullish data))
   \<and> run_action a fr fr2 =
        handle a fr @ (if list_ex is_reload_timer (handle a fr) then loadCollections fr2 else [])
   \<and> fetches (run_action a fr fr2) \<le> 2"
proof -
  have one: "fetches (handle a fr) \<le> 1"
    by (rule handle_fetches)
  have lc: "fetches (loadCollections fr2) = 1"
    by (rule loadCollections_fetches)
  have reload: "list_ex is_reload_timer (handle a fr) \<longleftrightarrow>
        (\<exists>f response data. a = EnhCsvChange (Some f) \<and> fr = Inr response \<and> ok response
            \<and> json response = Inr data \<and> \<not> nullish data)"
  proof (cases "\<exists>file. a = EnhCsvChange file")
    case True
    then obtain fl where a: "a = EnhCsvChange fl" by blast
    show ?thesis unfolding a using csv_change_reload [of fl fr] by simp
  next
    case False
    then have "\<not> list_ex is_reload_timer (handle a fr)"
      by (intro no_reload_not_ex handle_no_reload)
    then show ?thesis using False by blast
  qed
  have run: "run_action a fr fr2 =
        handle a fr @ (if list_ex is_reload_timer (handle a fr) then loadCollections fr2 else [])"
  proof (cases "\<exists>file. a = EnhCsvChange file")
    case True
    then obtain fl where a: "a = EnhCsvChange fl" by blast
    show ?thesis unfolding a run_action_def using csv_change_timers [of fr2 fl fr] by simp
  next
    case False
    then have n: "list_all (\<lambda>e. \<not> is_reload_timer e) (handle a fr)"
      by (rule handle_no_reload)
    show ?thesis
      unfolding run_action_def using no_reload_timers [OF n] no_reload_not_ex [OF n] by simp
  qed
  have two: "fetches (run_action a fr fr2) \<le> 2"
    unfolding run using one lc by (simp add: fetches_append fetches_Nil)
  show ?thesis using one lc reload run two by blast
qed

theorem requests_per_action_witness:
  "fetches (handle (EnhCsvChange (Some ''rows.csv''))
      (Inr \<lparr>ok = True, json = Inr (JObj [(''collection'', JStr ''rows'')])\<rparr>)) \<le> 1
   \<and> list_ex is_reload_timer (handle (EnhCsvChange (Some ''rows.csv''))
      (Inr \<lparr>ok = True, json = Inr (JObj [(''collection'', JStr ''rows'')])\<rparr>))
   \<and> run_action (EnhCsvChange (Some ''rows.csv''))
      (Inr \<lparr>ok = True, json = Inr (JObj [(''collection'', JStr ''rows'')])\<rparr>)
      (Inl (Thrown ''offline''))
     = handle (EnhCsvChange (Some ''rows.csv''))
         (Inr \<lparr>ok = True, json = Inr (JObj [(''collection'', JStr ''rows'')])\<rparr>)
       @ loadCollections (Inl (Thrown ''offline''))
   \<and> run_action (EnhSendClick ''database'' ''hi'' (1, ''a'') (2, ''b''))
        (Inl (Thrown ''offline'')) (Inl (Thrown ''offline''))
     = handle (EnhSendClick ''database'' ''hi'' (1, ''a'') (2, ''b'')) (Inl (Thrown ''offline''))"
  using requests_per_action [of "EnhCsvChange (Some ''rows.csv'')"
      "Inr \<lparr>ok = True, json = Inr (JObj [(''collection'', JStr ''rows'')])\<rparr>"
      "Inl (Thrown ''offline'')"]
    requests_per_action [of "EnhSendClick ''database'' ''hi'' (1, ''a'') (2, ''b'')" "Inl (Thrown ''offline'')"
      "Inl (Thrown ''offline'')"]
  by simp

text \<open>
  One change of the file input, answered by a successful import, is followed by the
  reload of the collections: the handler and its timer issue two requests in a row.
\<close>

lemma csv_upload_two_requests:
  "fetches (run_action (EnhCsvChange (Some ''rows.csv''))
      (Inr \<lparr>ok = True, json = Inr (JObj [(''collection'', JStr ''rows'')])\<rparr>)
      (Inl (Thrown ''offline''))) = 2"
  by (simp add: run_action_def csv_change_cases loadCollections_def loadCollections_try_def
      run_simps fetches_def)

subsection \<open>Failures of a request\<close>

lemma setup_shows_error: "failed_transport fr \<Longrightarrow> shows_error (setup_click_legacy fr)"
  by (auto simp add: failed_transport_def shows_error_def setup_click_legacy_def setup_try_legacy_def
      run_simps js_get_def split: sum.splits)

lemma import_shows_error: "failed_transport fr \<Longrightarrow> shows_error (import_click_legacy (Some f) fr)"
  by (auto simp add: failed_transport_def shows_error_def import_click_legacy_def import_try_legacy_def
      import_failed_text_def run_simps js_get_def split: sum.splits)

lemma csv_change_shows_error: "failed_transport fr \<Longrightarrow> shows_error (csv_change (Some f) fr)"
  by (auto simp add: failed_transport_def shows_error_def csv_change_cases split: sum.splits)

lemma loadCollections_shows_error: "failed_transport fr \<Longrightarrow> shows_error (loadCollections fr)"
  by (auto simp add: failed_transport_def shows_error_def loadCollections_def loadCollections_try_def
      run_simps split: sum.splits)

lemma sendQuery_shows_error:
  "failed_transport fr \<or> error_field fr \<Longrightarrow> trim input \<noteq> [] \<Longrightarrow>
   shows_error (sendQuery input now1 now2 now3 fr)"
  by (auto simp add: failed_transport_def error_field_def shows_error_def sendQuery_def
      sendQuery_try_def Let_def run_simps js_get_def split: sum.splits)

lemma sendMessage_shows_error:
  "failed_transport fr \<or> error_field fr \<Longrightarrow> trim input \<noteq> [] \<Longrightarrow>
   shows_error (sendMessage currentMode input stamp1 stamp2 fr)"
  by (auto simp add: failed_transport_def error_field_def shows_error_def sendMessage_def
      sendMessage_try_def render_enh_def Let_def run_simps js_get_def split: sum.splits)

lemma sendMessage_hides_processing:
  assumes that: "trim input \<noteq> []"
  shows "HideProcessing \<in> set (sendMessage currentMode input stamp1 stamp2 fr)"
proof (cases fr)
  case (Inl e)
  then show ?thesis
    using that by (simp add: sendMessage_def sendMessage_try_def Let_def run_simps)
next
  case (Inr response)
  then show ?thesis
    using that by (simp add: sendMessage_def sendMessage_try_def Let_def run_simps)
qed

lemma import_fetches_one: "fetches (import_click_legacy (Some f) fr) = 1"
  by (simp add: import_click_legacy_def fetches_append try_catch_fetches [OF import_try_fetches]
      fetches_Cons fetches_Nil)

lemma csv_change_fetches_one: "fetches (csv_change (Some f) fr) = 1"
  by (simp add: csv_change_cases fetches_def split: sum.splits)

text \<open>
  A network error, a status that is not ok or a body that does not parse ends, in every
  request handler (setup, CSV import of both scripts, collections, and the two send
  functions for a non-blank question), with an effect that shows an error; so does, in
  the two send functions, an ok response whose body has a truthy \<^verbatim>\<open>error\<close> field. Each
  of these handlers issues exactly one request whatever the answer, and the enhanced
  send function hides its processing indicator in every case.
\<close>

lemma transport_failures_are_shown:
  "(failed_transport fr \<longrightarrow>
      shows_error (setup_click_legacy fr) \<and> shows_error (import_click_legacy (Some f) fr)
      \<and> shows_error (csv_change (Some f) fr) \<and> shows_error (loadCollections fr))
   \<and> ((failed_transport fr \<or> error_field fr) \<and> trim input \<noteq> [] \<longrightarrow>
      shows_error (sendQuery input now1 now2 now3 fr)
      \<and> shows_error (sendMessage currentMode input stamp1 stamp2 fr))
   \<and> fetches (setup_click_legacy fr) = 1 \<and> fetches (import_click_legacy (Some f) fr) = 1
   \<and> fetches (csv_change (Some f) fr) = 1 \<and> fetches (loadCollections fr) = 1
   \<and> (trim input \<noteq> [] \<longrightarrow>
        fetches (sendQuery input now1 now2 now3 fr) = 1
        \<and> fetches (sendMessage currentMode input stamp1 stamp2 fr) = 1
        \<and> HideProcessing \<in> set (sendMessage currentMode input stamp1 stamp2 fr))"
  using setup_shows_error [of fr] import_shows_error [of fr f] csv_change_shows_error [of fr f]
    loadCollections_shows_error [of fr]
    sendQuery_shows_error [of fr input now1 now2 now3]
    sendMessage_shows_error [of fr input currentMode stamp1 stamp2]
    setup_fetches [of fr] import_fetches_one [of f fr] csv_change_fetches_one [of f fr]
    loadCollections_fetches [of fr]
    sendQuery_fetches [of input now1 now2 now3 fr] sendMessage_fetches [of currentMode input stamp1 stamp2 fr]
    sendMessage_hides_processing [of input currentMode stamp1 stamp2 fr]
  by (simp (no_asm_simp))

subsection \<open>The "Processing" message of the legacy page\<close>

lemma remove_first_fresh:
  "i \<notin> fst ` set ms \<Longrightarrow>
   remove_first i (ms @ m # rest) = (if fst m = i then ms @ rest else ms @ m # remove_first i rest)"
  by (induction ms) auto

lemma remove_first_none: "i \<notin> fst ` set ms \<Longrightarrow> remove_first i ms = ms"
  by (induction ms) auto

lemma chat_after_append: "chat_after ms (xs @ ys) = chat_after (chat_after ms xs) ys"
  by (simp add: chat_after_def)

lemma chat_after_Cons: "chat_after ms (e # es) = chat_after (chat_step ms e) es"
  by (simp add: chat_after_def)

lemma chat_after_Nil: "chat_after ms [] = ms"
  by (simp add: chat_after_def)

lemma resultMessage_legacy_chat:
  "chat_after ms (fst (resultMessage_legacy data)) = ms"
  by (auto simp add: resultMessage_legacy_def and_then_def emit_def attempt_def ret_def
      chat_after_Cons chat_after_Nil split: jsval.splits list.splits sum.splits)

text \<open>
  When the identifier of the "Processing" message differs from that of the question
  and from those already in the chat area, \<open>sendQuery\<close> for a non-blank question
  leaves the chat area with two more messages, whatever the answer of the network: the
  question and one answer or error message. The "Processing" message is gone.
\<close>

lemma sendQuery_chat:
  assumes "trim input \<noteq> []" and "message_id now2 \<noteq> message_id now1"
    and "message_id now2 \<notin> fst ` set ms"
  shows "\<exists>type text. chat_after ms (sendQuery input now1 now2 now3 fr) =
           ms @ [(message_id now1, ''user'', JStr (trim input)), (message_id now3, type, text)]"
proof (cases fr)
  case (Inl e)
  then show ?thesis
    using assms
    by (simp add: sendQuery_def sendQuery_try_def Let_def run_simps chat_after_Cons chat_after_Nil
        remove_first_fresh)
next
  case (Inr response)
  show ?thesis
  proof (cases "json response")
    case (Inl e)
    then show ?thesis
      using assms Inr
      by (simp add: sendQuery_def sendQuery_try_def Let_def run_simps chat_after_Cons
          chat_after_Nil remove_first_fresh)
  next
    case jr: (Inr data)
    obtain es r where rm: "resultMessage_legacy data = (es, r)"
      by (cases "resultMessage_legacy data")
    have q: "chat_after ms' es = ms'" for ms'
      using resultMessage_legacy_chat [of ms' data] rm by simp
    show ?thesis
      using assms Inr jr
      by (cases r; cases "nullish data")
         (auto simp add: sendQuery_def sendQuery_try_def Let_def run_simps chat_after_Cons
            chat_after_Nil chat_after_append remove_first_fresh remove_first_none js_get_def rm q)
  qed
qed

text \<open>
  The two calls of \<open>addMessage\<close> that open \<open>sendQuery\<close> follow each other directly.
  When both read the same millisecond, the question and the "Processing" message carry
  the same \<^verbatim>\<open>id\<close>, \<open>removeMessage\<close> finds the question first, and the "Processing"
  message stays in the chat area.
\<close>

lemma sendQuery_same_millisecond:
  "chat_after [] (sendQuery ''hi'' 5 5 6 (Inl (Thrown ''offline''))) =
     [(''5'', ''system'', JStr ''Processing your question...''),
      (''6'', ''error'', JStr ''Error processing your query: offline'')]"
  by (simp add: sendQuery_def sendQuery_try_def Let_def run_simps chat_after_def trim_def
      js_whitespace_def message_id_def dec_digit)

lemma sendQuery_chat_instance:
  "chat_after [] (sendQuery ''hi'' 5 6 7 (Inl (Thrown ''offline''))) =
     [(''5'', ''user'', JStr ''hi''),
      (''7'', ''error'', JStr ''Error processing your query: offline'')]"
  by (simp add: sendQuery_def sendQuery_try_def Let_def run_simps chat_after_def trim_def
      js_whitespace_def message_id_def dec_digit)

subsection \<open>An error field in the body of an ok response\<close>

text \<open>
  Claim C4 (every failure of a request is caught and shown, the \<^verbatim>\<open>error\<close> field of the
  body included). The handlers that send a question test the field
  (\<^verbatim>\<open>!response.ok || data.error\<close> in \<open>sendQuery\<close>); the setup handler of the same script
  tests the status only. Answered with an ok status and the body \<^verbatim>\<open>{"error": "boom"}\<close>,
  the setup handler clears the message text and paints it as a success: the page shows
  no error. \<open>sendQuery\<close>, answered the same, shows \<^verbatim>\<open>Error: boom\<close>.
\<close>

theorem setup_error_field_not_shown:
  "setup_click_legacy (Inr \<lparr>ok = True, json = Inr (JObj [(''error'', JStr ''boom'')])\<rparr>) =
     [SetProp ''setup-message'' ''textContent'' ''Setting up sample database...'',
      SetProp ''setup-message'' ''style.backgroundColor'' ''#e0f7fa'',
      Fetch ''POST'' ''/api/setup'' NoBody,
      SetProp ''setup-message'' ''textContent'' [],
      SetProp ''setup-message'' ''style.backgroundColor'' ''#e8f5e9'']
   \<and> error_field (Inr \<lparr>ok = True, json = Inr (JObj [(''error'', JStr ''boom'')])\<rparr>)
   \<and> \<not> shows_error (setup_click_legacy (Inr \<lparr>ok = True, json = Inr (JObj [(''error'', JStr ''boom'')])\<rparr>))
   \<and> sendQuery ''hi'' 1 2 3 (Inr \<lparr>ok = True, json = Inr (JObj [(''error'', JStr ''boom'')])\<rparr>) =
     [AddMessage ''1'' (JStr ''hi'') ''user'' None,
      SetProp ''user-input'' ''value'' [],
      AddMessage ''2'' (JStr ''Processing your question...'') ''system'' None,
      Fetch ''POST'' ''/api/query'' (JsonBody (JObj [(''question'', JStr ''hi'')])),
      RemoveMessage ''2'',
      AddMessage ''3'' (JStr ''Error: boom'') ''error'' None]"
  by (simp add: setup_click_legacy_def setup_try_legacy_def run_simps js_get_def dom_text_def
      error_field_def shows_error_def import_failed_text_def collections_error_html_def
      sendQuery_def sendQuery_try_def Let_def trim_def js_whitespace_def message_id_def dec_digit)

text \<open>
  The CSV import of both scripts and the collections list read the same answer as a
  success as well.
\<close>

lemma error_field_other_handlers:
  \<open>import_click_legacy (Some ''rows.csv'')
       (Inr \<lparr>ok = True, json = Inr (JObj [(''error'', JStr ''boom'')])\<rparr>) =
     [SetProp ''import-message'' ''textContent'' ''Uploading and importing CSV...'',
      SetProp ''import-message'' ''style.backgroundColor'' ''#e0f7fa'',
      Fetch ''POST'' ''/api/import-csv'' (FormFile ''rows.csv''),
      SetProp ''import-message'' ''textContent'' (import_ok_text ''undefined''),
      SetProp ''import-message'' ''style.backgroundColor'' ''#e8f5e9'']
   \<and> csv_change (Some ''rows.csv'')
       (Inr \<lparr>ok = True, json = Inr (JObj [(''error'', JStr ''boom'')])\<rparr>) =
     [Toast ''Uploading CSV...'' ''info'',
      Fetch ''POST'' ''/api/import-csv'' (FormFile ''rows.csv''),
      Toast (upload_ok_text ''undefined'') ''success'',
      SetProp ''csv-file'' ''value'' [],
      Timer 500 LoadCollections]
   \<and> loadCollections (Inr \<lparr>ok = True, json = Inr (JObj [(''error'', JStr ''boom'')])\<rparr>) =
     [Fetch ''GET'' ''/api/collections'' NoBody,
      SetProp ''collections-list'' ''innerHTML''
        ''<div class="collection-item empty">No data loaded</div>'']\<close>
  by (simp add: import_click_legacy_def import_try_legacy_def csv_change_def csv_change_try_def
      loadCollections_def loadCollections_try_def collections_html_def run_simps js_get_def js_or_def)

subsection \<open>The request of a question and the rendering of its answer\<close>

lemma sendQuery_request:
  "trim input \<noteq> [] \<Longrightarrow>
   Fetch ''POST'' ''/api/query'' (JsonBody (JObj [(''question'', JStr (trim input))]))
     \<in> set (sendQuery input now1 now2 now3 fr)"
  by (simp add: sendQuery_def sendQuery_try_def Let_def run_simps)

lemma sendMessage_request:
  "trim input \<noteq> [] \<Longrightarrow>
   request_enh currentMode (trim input) \<in> set (sendMessage currentMode input stamp1 stamp2 fr)"
  by (simp add: sendMessage_def sendMessage_try_def Let_def run_simps)

lemma nullish_not_truthy: "nullish v \<Longrightarrow> \<not> truthy v"
  by (cases v) simp_all

lemma results_of_legacy_selected:
  assumes "(truthy (js_index data ''result'') \<and> v = js_index data ''result''
            \<or> nullish (js_index data ''result'') \<and> truthy (js_index data ''sample_result'')
                \<and> v = js_index data ''sample_result''
            \<or> nullish (js_index data ''result'') \<and> nullish (js_index data ''sample_result'')
                \<and> v = JArr [])"
  shows "results_of_legacy data = v"
  using assms by (auto simp add: results_of_legacy_def js_or_def nullish_not_truthy)

lemma summary_of_legacy_selected:
  assumes "(truthy (js_index data ''result_summary'') \<and> s0 = js_index data ''result_summary''
            \<or> nullish (js_index data ''result_summary'') \<and> s0 = JStr [])"
  shows "summary_of_legacy data = s0"
  using assms by (auto simp add: summary_of_legacy_def js_or_def nullish_not_truthy)

lemma results_of_enh_selected:
  assumes "(js_index data ''result'' = JArr ys
            \<or> nullish (js_index data ''result'') \<and> js_index data ''patents'' = JArr ys
            \<or> nullish (js_index data ''result'') \<and> nullish (js_index data ''patents'')
                \<and> js_index data ''sample_result'' = JArr ys
            \<or> nullish (js_index data ''result'') \<and> nullish (js_index data ''patents'')
                \<and> nullish (js_index data ''sample_result'') \<and> ys = [])"
  shows "results_of_enh data = JArr ys"
  using assms by (auto simp add: results_of_enh_def js_or_def nullish_not_truthy)

lemma summary_of_enh_selected:
  assumes "(truthy (js_index data ''result_summary'') \<and> s0 = js_index data ''result_summary''
            \<or> nullish (js_index data ''result_summary'') \<and> truthy (js_index data ''summary'')
                \<and> s0 = js_index data ''summary''
            \<or> nullish (js_index data ''result_summary'') \<and> nullish (js_index data ''summary'')
                \<and> s0 = JStr [])"
  shows "summary_of_enh data = s0"
  using assms by (auto simp add: summary_of_enh_def js_or_def nullish_not_truthy)

lemma no_collections_searched:
  assumes "(nullish (js_index data ''collections_searched'')
             \<or> js_index data ''collections_searched'' = JArr [])"
  shows "js_index (collectionsSearched_of data) ''length'' = JNum 0"
  using assms by (auto simp add: collectionsSearched_of_def js_or_def nullish_not_truthy)

lemma collections_searched_array:
  assumes "js_index data ''collections_searched'' = JArr (c # cs)"
  shows "collectionsSearched_of data = JArr (c # cs)"
  using assms by (simp add: collectionsSearched_of_def js_or_def)

lemma sendQuery_rendering:
  assumes "trim input \<noteq> []"
    and "fr = Inr \<lparr>ok = True, json = Inr data\<rparr>"
    and "\<not> nullish data" and "\<not> truthy (js_index data ''error'')"
    and "results_of_legacy data = v" and "summary_of_legacy data = s0"
  shows "sendQuery input now1 now2 now3 fr =
          [AddMessage (message_id now1) (JStr (trim input)) ''user'' None,
           SetProp ''user-input'' ''value'' [],
           AddMessage (message_id now2) (JStr ''Processing your question...'') ''system'' None,
           Fetch ''POST'' ''/api/query'' (JsonBody (JObj [(''question'', JStr (trim input))])),
           RemoveMessage (message_id now2)] @
          (if truthy (js_index data ''query'')
           then [SetProp ''query-display'' ''textContent'' (json_stringify (js_index data ''query''))]
           else []) @
          (case v of
             JArr [] \<Rightarrow>
               [AddMessage (message_id now3) (JStr ''No results found for your query.'') ''system'' None]
           | JArr (x # xs) \<Rightarrow>
               (case formatResults_legacy (x # xs) s0 of
                  Inr table \<Rightarrow>
                    [Timer 50 (AttachDownload (x # xs)),
                     AddMessage (message_id now3) (JStr table) ''system'' None]
                | Inl e \<Rightarrow>
                    [RemoveMessage (message_id now2),
                     AddMessage (message_id now3)
                       (JStr (''Error processing your query: '' @ message e)) ''error'' None])
           | JNum n \<Rightarrow>
               [AddMessage (message_id now3) (JStr (''Result: '' @ js_String (JNum n))) ''system'' None]
           | _ \<Rightarrow>
               [AddMessage (message_id now3) (JStr (json_stringify v)) ''system'' None])"
  using assms
  by (auto simp add: sendQuery_def sendQuery_try_def resultMessage_legacy_def Let_def run_simps
      js_get_def split: jsval.splits list.splits sum.splits)

lemma formatResults_legacy_rows:
  "formatResults_legacy (map JObj (r # rs)) s0 =
        Inr (table_legacy (uniq (concat (map (map fst) (r # rs)))) (map JObj (r # rs)) s0)"
  using flat_keys_objects [of "r # rs"] by (simp add: formatResults_legacy_def)

lemma sendMessage_rendering:
  assumes "trim input \<noteq> []"
    and "fr = Inr \<lparr>ok = True, json = Inr data\<rparr>"
    and "\<not> nullish data" and "\<not> truthy (js_index data ''error'')"
    and "results_of_enh data = JArr ys"
    and "enhancedSummary currentMode data = Inr summary"
  shows "sendMessage currentMode input stamp1 stamp2 fr =
          [AddMessage (messageId_enh stamp1) (JStr (trim input)) ''user'' None,
           SetProp ''user-input'' ''value'' [],
           SetDisabled ''send-btn'' True,
           SetProp ''user-input'' ''style.height'' ''auto'',
           ShowProcessing,
           request_enh currentMode (trim input),
           HideProcessing] @
          (if ys \<noteq> [] then
             (case formatResults_enh ys summary data of
                Inr html \<Rightarrow> [AddMessage (messageId_enh stamp2) html ''assistant'' (Some ys)]
              | Inl e \<Rightarrow>
                  [HideProcessing,
                   AddMessage (messageId_enh stamp2) (JStr (''Error: '' @ message e)) ''error'' None])
           else if truthy summary then
             [AddMessage (messageId_enh stamp2) summary ''assistant'' None]
           else
             (case noResultsMsg data of
                Inr msg \<Rightarrow> [AddMessage (messageId_enh stamp2) (JStr msg) ''assistant'' None]
              | Inl e \<Rightarrow>
                  [HideProcessing,
                   AddMessage (messageId_enh stamp2) (JStr (''Error: '' @ message e)) ''error'' None]))"
  using assms
  by (auto simp add: sendMessage_def sendMessage_try_def render_enh_def Let_def run_simps
      js_get_def updateSendButton_def trim_def split: list.splits sum.splits)

lemma enhancedSummary_plain:
  assumes "summary_of_enh data = s0"
    and "currentMode \<noteq> ''database'' \<or> js_index (collectionsSearched_of data) ''length'' = JNum 0"
  shows "enhancedSummary currentMode data = Inr s0"
  using assms by (auto simp add: enhancedSummary_def Let_def)

lemma enhancedSummary_database:
  assumes "collectionsSearched_of data = JArr (c # cs)"
    and "summary_of_enh data = JStr s"
  shows "enhancedSummary ''database'' data =
          Inr (JStr (if str_includes s ''collection'' then s
                     else s @ ''\<newline>\<newline>Searched '' @ dec (Suc (length cs)) @ '' collection(s): '' @
                          js_join '', '' (map (\<lambda>x. if nullish x then [] else js_String x) (c # cs))))"
proof -
  have n: "nat (1 + int (length cs)) = Suc (length cs)"
    by simp
  show ?thesis
    using assms
    by (simp add: enhancedSummary_def js_includes_def js_array_join_def Let_def n)
qed

lemma noResultsMsg_plain:
  assumes "js_index (collectionsSearched_of data) ''length'' = JNum 0"
  shows "noResultsMsg data = Inr ''No results found. Try rephrasing your query.''"
  using assms by (simp add: noResultsMsg_def Let_def)

lemma noResultsMsg_collections:
  assumes "collectionsSearched_of data = JArr (c # cs)"
  shows "noResultsMsg data =
          Inr (''No results found in '' @ dec (Suc (length cs)) @ '' collection(s): '' @
                 js_join '', '' (map (\<lambda>x. if nullish x then [] else js_String x) (c # cs)) @
                 ''. Try rephrasing your query.'')"
proof -
  have n: "nat (1 + int (length cs)) = Suc (length cs)"
    by simp
  show ?thesis
    using assms by (simp add: noResultsMsg_def js_array_join_def Let_def n)
qed

text \<open>
  Claim C6, amended (request and rendering of a question). A non-blank question is sent
  by the legacy script as \<^verbatim>\<open>POST /api/query\<close> with the body \<^verbatim>\<open>{question}\<close>, by the
  enhanced script in database mode as \<^verbatim>\<open>POST /api/query\<close> with \<^verbatim>\<open>{question, mode}\<close> and
  in any other mode as \<^verbatim>\<open>POST /api/search\<close> with \<^verbatim>\<open>{query, limit: 10}\<close>. The answer is an
  ok response whose body is not \<^verbatim>\<open>null\<close> and has no truthy \<^verbatim>\<open>error\<close> field.

  Legacy script: the results \<open>v\<close> are the \<^verbatim>\<open>result\<close> field when it is truthy; when
  \<^verbatim>\<open>result\<close> is absent or \<^verbatim>\<open>null\<close>, the \<^verbatim>\<open>sample_result\<close> field when that is truthy, and
  the empty array when that is absent or \<^verbatim>\<open>null\<close> too. The summary \<open>s0\<close> is the
  \<^verbatim>\<open>result_summary\<close> field when it is truthy and the empty string when it is absent or
  \<^verbatim>\<open>null\<close>. The handler ends with one message: for a non-empty array what
  \<open>formatResults\<close> makes of the rows and the summary (for row objects the table of
  these rows under the summary), for the empty array the text
  \<^verbatim>\<open>No results found for your query.\<close>, for a number \<open>n\<close> the text \<^verbatim>\<open>Result: n\<close>, for
  any other value its JSON text.

  Enhanced script: when \<^verbatim>\<open>result\<close> is an array, the rows \<open>ys\<close> are that array; when
  \<^verbatim>\<open>result\<close> is absent or \<^verbatim>\<open>null\<close> and \<^verbatim>\<open>patents\<close> (in either mode) is an array, they are
  that array; when both are absent or \<^verbatim>\<open>null\<close> and \<^verbatim>\<open>sample_result\<close> is an array, they
  are that array; when all three are absent or \<^verbatim>\<open>null\<close>, there are no rows. The handler
  ends with one message: for rows, what \<open>formatResults\<close> makes of them and the summary,
  with the rows as download data; without rows, the summary alone when it is truthy,
  and otherwise the text \<^verbatim>\<open>No results found\<close> followed, when \<^verbatim>\<open>collections_searched\<close> is
  a non-empty array, by the number and the names of the collections. The summary starts
  from \<open>s0\<close>: the \<^verbatim>\<open>result_summary\<close> field when it is truthy; when that is absent or
  \<^verbatim>\<open>null\<close>, the \<^verbatim>\<open>summary\<close> field when truthy, and the empty string when that is absent
  or \<^verbatim>\<open>null\<close> too. Outside database mode, or when \<^verbatim>\<open>collections_searched\<close> is absent,
  \<^verbatim>\<open>null\<close> or the empty array, the summary is \<open>s0\<close>; in database mode with a non-empty
  array \<^verbatim>\<open>collections_searched\<close> and a string \<open>s0\<close>, it is \<open>s0\<close> followed by
  \<^verbatim>\<open>Searched N collection(s): names\<close>, unless \<open>s0\<close> contains the word \<^verbatim>\<open>collection\<close>.

  Nothing is said here about a \<^verbatim>\<open>result\<close>, \<^verbatim>\<open>patents\<close>, \<^verbatim>\<open>sample_result\<close>,
  \<^verbatim>\<open>result_summary\<close> or \<^verbatim>\<open>summary\<close> field that is present with a falsy value other than
  \<^verbatim>\<open>null\<close>, nor about results of the enhanced script that are not an array.
\<close>

theorem question_request_and_rendering:
  "(trim input \<noteq> [] \<longrightarrow>
      Fetch ''POST'' ''/api/query'' (JsonBody (JObj [(''question'', JStr (trim input))]))
        \<in> set (sendQuery input now1 now2 now3 fr)
      \<and> request_enh currentMode (trim input) \<in> set (sendMessage currentMode input stamp1 stamp2 fr))
   \<and> request_enh ''database'' q =
        Fetch ''POST'' ''/api/query''
          (JsonBody (JObj [(''question'', JStr q), (''mode'', JStr ''database'')]))
   \<and> (currentMode \<noteq> ''database'' \<longrightarrow>
        request_enh currentMode q =
          Fetch ''POST'' ''/api/search'' (JsonBody (JObj [(''query'', JStr q), (''limit'', JNum 10)])))
   \<and> (trim input \<noteq> [] \<and> fr = Inr \<lparr>ok = True, json = Inr data\<rparr> \<and> \<not> nullish data
        \<and> \<not> truthy (js_index data ''error'')
        \<and> (truthy (js_index data ''result'') \<and> v = js_index data ''result''
            \<or> nullish (js_index data ''result'') \<and> truthy (js_index data ''sample_result'')
                \<and> v = js_index data ''sample_result''
            \<or> nullish (js_index data ''result'') \<and> nullish (js_index data ''sample_result'')
                \<and> v = JArr [])
        \<and> (truthy (js_index data ''result_summary'') \<and> s0 = js_index data ''result_summary''
            \<or> nullish (js_index data ''result_summary'') \<and> s0 = JStr []) \<longrightarrow>
        sendQuery input now1 now2 now3 fr =
          [AddMessage (message_id now1) (JStr (trim input)) ''user'' None,
           SetProp ''user-input'' ''value'' [],
           AddMessage (message_id now2) (JStr ''Processing your question...'') ''system'' None,
           Fetch ''POST'' ''/api/query'' (JsonBody (JObj [(''question'', JStr (trim input))])),
           RemoveMessage (message_id now2)] @
          (if truthy (js_index data ''query'')
           then [SetProp ''query-display'' ''textContent'' (json_stringify (js_index data ''query''))]
           else []) @
          (case v of
             JArr [] \<Rightarrow>
               [AddMessage (message_id now3) (JStr ''No results found for your query.'') ''system'' None]
           | JArr (x # xs) \<Rightarrow>
               (case formatResults_legacy (x # xs) s0 of
                  Inr table \<Rightarrow>
                    [Timer 50 (AttachDownload (x # xs)),
                     AddMessage (message_id now3) (JStr table) ''system'' None]
                | Inl e \<Rightarrow>
                    [RemoveMessage (message_id now2),
                     AddMessage (message_id now3)
                       (JStr (''Error processing your query: '' @ message e)) ''error'' None])
           | JNum n \<Rightarrow>
               [AddMessage (message_id now3) (JStr (''Result: '' @ js_String (JNum n))) ''system'' None]
           | _ \<Rightarrow>
               [AddMessage (message_id now3) (JStr (json_stringify v)) ''system'' None]))
   \<and> formatResults_legacy (map JObj (r # rs)) s0 =
        Inr (table_legacy (uniq (concat (map (map fst) (r # rs)))) (map JObj (r # rs)) s0)
   \<and> (trim input \<noteq> [] \<and> fr = Inr \<lparr>ok = True, json = Inr data\<rparr> \<and> \<not> nullish data
        \<and> \<not> truthy (js_index data ''error'')
        \<and> (js_index data ''result'' = JArr ys
            \<or> nullish (js_index data ''result'') \<and> js_index data ''patents'' = JArr ys
            \<or> nullish (js_index data ''result'') \<and> nullish (js_index data ''patents'')
                \<and> js_index data ''sample_result'' = JArr ys
            \<or> nullish (js_index data ''result'') \<and> nullish (js_index data ''patents'')
                \<and> nullish (js_index data ''sample_result'') \<and> ys = [])
        \<and> enhancedSummary currentMode data = Inr summary \<longrightarrow>
        sendMessage currentMode input stamp1 stamp2 fr =
          [AddMessage (messageId_enh stamp1) (JStr (trim input)) ''user'' None,
           SetProp ''user-input'' ''value'' [],
           SetDisabled ''send-btn'' True,
           SetProp ''user-input'' ''style.height'' ''auto'',
           ShowProcessing,
           request_enh currentMode (trim input),
           HideProcessing] @
          (if ys \<noteq> [] then
             (case formatResults_enh ys summary data of
                Inr html \<Rightarrow> [AddMessage (messageId_enh stamp2) html ''assistant'' (Some ys)]
              | Inl e \<Rightarrow>
                  [HideProcessing,
                   AddMessage (messageId_enh stamp2) (JStr (''Error: '' @ message e)) ''error'' None])
           else if truthy summary then
             [AddMessage (messageId_enh stamp2) summary ''assistant'' None]
           else
             (case noResultsMsg data of
                Inr msg \<Rightarrow> [AddMessage (messageId_enh stamp2) (JStr msg) ''assistant'' None]
              | Inl e \<Rightarrow>
                  [HideProcessing,
                   AddMessage (messageId_enh stamp2) (JStr (''Error: '' @ message e)) ''error'' None])))
   \<and> ((truthy (js_index data ''result_summary'') \<and> s0 = js_index data ''result_summary''
            \<or> nullish (js_index data ''result_summary'') \<and> truthy (js_index data ''summary'')
                \<and> s0 = js_index data ''summary''
            \<or> nullish (js_index data ''result_summary'') \<and> nullish (js_index data ''summary'')
                \<and> s0 = JStr [])
        \<and> (currentMode \<noteq> ''database'' \<or> nullish (js_index data ''collections_searched'')
             \<or> js_index data ''collections_searched'' = JArr []) \<longrightarrow>
        enhancedSummary currentMode data = Inr s0)
   \<and> ((truthy (js_index data ''result_summary'') \<and> s0 = js_index data ''result_summary''
            \<or> nullish (js_index data ''result_summary'') \<and> truthy (js_index data ''summary'')
                \<and> s0 = js_index data ''summary''
            \<or> nullish (js_index data ''result_summary'') \<and> nullish (js_index data ''summary'')
                \<and> s0 = JStr [])
        \<and> s0 = JStr s \<and> js_index data ''collections_searched'' = JArr (c # cs) \<longrightarrow>
        enhancedSummary ''database'' data =
          Inr (JStr (if str_includes s ''collection'' then s
                     else s @ ''\<newline>\<newline>Searched '' @ dec (Suc (length cs)) @ '' collection(s): '' @
                          js_join '', '' (map (\<lambda>x. if nullish x then [] else js_String x) (c # cs)))))
   \<and> ((nullish (js_index data ''collections_searched'')
             \<or> js_index data ''collections_searched'' = JArr []) \<longrightarrow>
        noResultsMsg data = Inr ''No results found. Try rephrasing your query.'')
   \<and> (js_index data ''collections_searched'' = JArr (c # cs) \<longrightarrow>
        noResultsMsg data =
          Inr (''No results found in '' @ dec (Suc (length cs)) @ '' collection(s): '' @
                 js_join '', '' (map (\<lambda>x. if nullish x then [] else js_String x) (c # cs)) @
                 ''. Try rephrasing your query.''))"
proof (intro conjI impI)
  assume "trim input \<noteq> []"
  then show "Fetch ''POST'' ''/api/query'' (JsonBody (JObj [(''question'', JStr (trim input))]))
        \<in> set (sendQuery input now1 now2 now3 fr)"
    by (rule sendQuery_request)
next
  assume "trim input \<noteq> []"
  then show "request_enh currentMode (trim input) \<in> set (sendMessage currentMode input stamp1 stamp2 fr)"
    by (rule sendMessage_request)
next
  show "request_enh ''database'' q =
        Fetch ''POST'' ''/api/query''
          (JsonBody (JObj [(''question'', JStr q), (''mode'', JStr ''database'')]))"
    by (simp add: request_enh_def)
next
  assume "currentMode \<noteq> ''database''"
  then show "request_enh currentMode q =
          Fetch ''POST'' ''/api/search'' (JsonBody (JObj [(''query'', JStr q), (''limit'', JNum 10)]))"
    by (simp add: request_enh_def)
next
  assume h: "trim input \<noteq> [] \<and> fr = Inr \<lparr>ok = True, json = Inr data\<rparr> \<and> \<not> nullish data
        \<and> \<not> truthy (js_index data ''error'')
        \<and> (truthy (js_index data ''result'') \<and> v = js_index data ''result''
            \<or> nullish (js_index data ''result'') \<and> truthy (js_index data ''sample_result'')
                \<and> v = js_index data ''sample_result''
            \<or> nullish (js_index data ''result'') \<and> nullish (js_index data ''sample_result'')
                \<and> v = JArr [])
        \<and> (truthy (js_index data ''result_summary'') \<and> s0 = js_index data ''result_summary''
            \<or> nullish (js_index data ''result_summary'') \<and> s0 = JStr [])"
  have res: "results_of_legacy data = v"
    using h by (intro results_of_legacy_selected) blast
  have sm: "summary_of_legacy data = s0"
    using h by (intro summary_of_legacy_selected) blast
  show "sendQuery input now1 now2 now3 fr =
          [AddMessage (message_id now1) (JStr (trim input)) ''user'' None,
           SetProp ''user-input'' ''value'' [],
           AddMessage (message_id now2) (JStr ''Processing your question...'') ''system'' None,
           Fetch ''POST'' ''/api/query'' (JsonBody (JObj [(''question'', JStr (trim input))])),
           RemoveMessage (message_id now2)] @
          (if truthy (js_index data ''query'')
           then [SetProp ''query-display'' ''textContent'' (json_stringify (js_index data ''query''))]
           else []) @
          (case v of
             JArr [] \<Rightarrow>
               [AddMessage (message_id now3) (JStr ''No results found for your query.'') ''system'' None]
           | JArr (x # xs) \<Rightarrow>
               (case formatResults_legacy (x # xs) s0 of
                  Inr table \<Rightarrow>
                    [Timer 50 (AttachDownload (x # xs)),
                     AddMessage (message_id now3) (JStr table) ''system'' None]
                | Inl e \<Rightarrow>
                    [RemoveMessage (message_id now2),
                     AddMessage (message_id now3)
                       (JStr (''Error processing your query: '' @ message e)) ''error'' None])
           | JNum n \<Rightarrow>
               [AddMessage (message_id now3) (JStr (''Result: '' @ js_String (JNum n))) ''system'' None]
           | _ \<Rightarrow>
               [AddMessage (message_id now3) (JStr (json_stringify v)) ''system'' None])"
    using h res sm by (intro sendQuery_rendering) blast+
next
  show "formatResults_legacy (map JObj (r # rs)) s0 =
        Inr (table_legacy (uniq (concat (map (map fst) (r # rs)))) (map JObj (r # rs)) s0)"
    by (rule formatResults_legacy_rows)
next
  assume h: "trim input \<noteq> [] \<and> fr = Inr \<lparr>ok = True, json = Inr data\<rparr> \<and> \<not> nullish data
        \<and> \<not> truthy (js_index data ''error'')
        \<and> (js_index data ''result'' = JArr ys
            \<or> nullish (js_index data ''result'') \<and> js_index data ''patents'' = JArr ys
            \<or> nullish (js_index data ''result'') \<and> nullish (js_index data ''patents'')
                \<and> js_index data ''sample_result'' = JArr ys
            \<or> nullish (js_index data ''result'') \<and> nullish (js_index data ''patents'')
                \<and> nullish (js_index data ''sample_result'') \<and> ys = [])
        \<and> enhancedSummary currentMode data = Inr summary"
  have res: "results_of_enh data = JArr ys"
    using h by (intro results_of_enh_selected) blast
  show "sendMessage currentMode input stamp1 stamp2 fr =
          [AddMessage (messageId_enh stamp1) (JStr (trim input)) ''user'' None,
           SetProp ''user-input'' ''value'' [],
           SetDisabled ''send-btn'' True,
           SetProp ''user-input'' ''style.height'' ''auto'',
           ShowProcessing,
           request_enh currentMode (trim input),
           HideProcessing] @
          (if ys \<noteq> [] then
             (case formatResults_enh ys summary data of
                Inr html \<Rightarrow> [AddMessage (messageId_enh stamp2) html ''assistant'' (Some ys)]
              | Inl e \<Rightarrow>
                  [HideProcessing,
                   AddMessage (messageId_enh stamp2) (JStr (''Error: '' @ message e)) ''error'' None])
           else if truthy summary then
             [AddMessage (messageId_enh stamp2) summary ''assistant'' None]
           else
             (case noResultsMsg data of
                Inr msg \<Rightarrow> [AddMessage (messageId_enh stamp2) (JStr msg) ''assistant'' None]
              | Inl e \<Rightarrow>
                  [HideProcessing,
                   AddMessage (messageId_enh stamp2) (JStr (''Error: '' @ message e)) ''error'' None]))"
    using h res by (intro sendMessage_rendering) blast+
next
  assume h: "(truthy (js_index data ''result_summary'') \<and> s0 = js_index data ''result_summary''
            \<or> nullish (js_index data ''result_summary'') \<and> truthy (js_index data ''summary'')
                \<and> s0 = js_index data ''summary''
            \<or> nullish (js_index data ''result_summary'') \<and> nullish (js_index data ''summary'')
                \<and> s0 = JStr [])
        \<and> (currentMode \<noteq> ''database'' \<or> nullish (js_index data ''collections_searched'')
             \<or> js_index data ''collections_searched'' = JArr [])"
  have sm: "summary_of_enh data = s0"
    using h by (intro summary_of_enh_selected) blast
  have "currentMode \<noteq> ''database'' \<or> js_index (collectionsSearched_of data) ''length'' = JNum 0"
    using h no_collections_searched [of data] by blast
  with sm show "enhancedSummary currentMode data = Inr s0"
    by (rule enhancedSummary_plain)
next
  assume h: "(truthy (js_index data ''result_summary'') \<and> s0 = js_index data ''result_summary''
            \<or> nullish (js_index data ''result_summary'') \<and> truthy (js_index data ''summary'')
                \<and> s0 = js_index data ''summary''
            \<or> nullish (js_index data ''result_summary'') \<and> nullish (js_index data ''summary'')
                \<and> s0 = JStr [])
        \<and> s0 = JStr s \<and> js_index data ''collections_searched'' = JArr (c # cs)"
  have sm: "summary_of_enh data = s0"
    using h by (intro summary_of_enh_selected) blast
  have cs: "collectionsSearched_of data = JArr (c # cs)"
    using h by (intro collections_searched_array) blast
  show "enhancedSummary ''database'' data =
          Inr (JStr (if str_includes s ''collection'' then s
                     else s @ ''\<newline>\<newline>Searched '' @ dec (Suc (length cs)) @ '' collection(s): '' @
                          js_join '', '' (map (\<lambda>x. if nullish x then [] else js_String x) (c # cs))))"
    using cs sm h by (intro enhancedSummary_database) blast+
next
  assume "(nullish (js_index data ''collections_searched'')
             \<or> js_index data ''collections_searched'' = JArr [])"
  then have "js_index (collectionsSearched_of data) ''length'' = JNum 0"
    by (rule no_collections_searched)
  then show "noResultsMsg data = Inr ''No results found. Try rephrasing your query.''"
    by (rule noResultsMsg_plain)
next
  assume "js_index data ''collections_searched'' = JArr (c # cs)"
  then have "collectionsSearched_of data = JArr (c # cs)"
    by (rule collections_searched_array)
  then show "noResultsMsg data =
          Inr (''No results found in '' @ dec (Suc (length cs)) @ '' collection(s): '' @
                 js_join '', '' (map (\<lambda>x. if nullish x then [] else js_String x) (c # cs)) @
                 ''. Try rephrasing your query.'')"
    by (rule noResultsMsg_collections)
qed

theorem question_request_and_rendering_witness:
  "sendQuery ''hi'' 1 2 3
      (Inr \<lparr>ok = True, json = Inr (JObj [(''result'', JArr [JObj [(''title'', JStr ''x'')]]),
                                           (''result_summary'', JStr ''Found 1'')])\<rparr>) =
     [AddMessage ''1'' (JStr ''hi'') ''user'' None,
      SetProp ''user-input'' ''value'' [],
      AddMessage ''2'' (JStr ''Processing your question...'') ''system'' None,
      Fetch ''POST'' ''/api/query'' (JsonBody (JObj [(''question'', JStr ''hi'')])),
      RemoveMessage ''2'',
      Timer 50 (AttachDownload [JObj [(''title'', JStr ''x'')]]),
      AddMessage ''3''
        (JStr (table_legacy [''title''] [JObj [(''title'', JStr ''x'')]] (JStr ''Found 1'')))
        ''system'' None]
   \<and> sendMessage ''serpapi'' ''hi'' (1, ''a'') (2, ''b'')
      (Inr \<lparr>ok = True, json = Inr (JObj [(''result'', JArr [JObj [(''title'', JStr ''x'')]]),
                                           (''result_summary'', JStr ''Found 1'')])\<rparr>) =
     [AddMessage ''msg-1-a'' (JStr ''hi'') ''user'' None,
      SetProp ''user-input'' ''value'' [],
      SetDisabled ''send-btn'' True,
      SetProp ''user-input'' ''style.height'' ''auto'',
      ShowProcessing,
      Fetch ''POST'' ''/api/search'' (JsonBody (JObj [(''query'', JStr ''hi''), (''limit'', JNum 10)])),
      HideProcessing] @
     (case formatResults_enh [JObj [(''title'', JStr ''x'')]] (JStr ''Found 1'')
             (JObj [(''result'', JArr [JObj [(''title'', JStr ''x'')]]),
                    (''result_summary'', JStr ''Found 1'')]) of
        Inr html \<Rightarrow> [AddMessage ''msg-2-b'' html ''assistant'' (Some [JObj [(''title'', JStr ''x'')]])]
      | Inl e \<Rightarrow> [HideProcessing, AddMessage ''msg-2-b'' (JStr (''Error: '' @ message e)) ''error'' None])
   \<and> sendMessage ''database'' ''hi'' (1, ''a'') (2, ''b'')
      (Inr \<lparr>ok = True, json = Inr (JObj [(''result_summary'', JStr ''Found 0''),
                                           (''collections_searched'', JArr [JStr ''patents''])])\<rparr>) =
     [AddMessage ''msg-1-a'' (JStr ''hi'') ''user'' None,
      SetProp ''user-input'' ''value'' [],
      SetDisabled ''send-btn'' True,
      SetProp ''user-input'' ''style.height'' ''auto'',
      ShowProcessing,
      Fetch ''POST'' ''/api/query''
        (JsonBody (JObj [(''question'', JStr ''hi''), (''mode'', JStr ''database'')])),
      HideProcessing,
      AddMessage ''msg-2-b'' (JStr ''Found 0\<newline>\<newline>Searched 1 collection(s): patents'')
        ''assistant'' None]"
proof -
  note legacy_and_search = question_request_and_rendering
    [where input = "''hi''" and ?now1.0 = 1 and ?now2.0 = 2 and ?now3.0 = 3
       and ?stamp1.0 = "(1, ''a'')" and ?stamp2.0 = "(2, ''b'')"
       and currentMode = "''serpapi''" and q = "''hi''"
       and data = "JObj [(''result'', JArr [JObj [(''title'', JStr ''x'')]]),
                         (''result_summary'', JStr ''Found 1'')]"
       and fr = "Inr \<lparr>ok = True, json = Inr (JObj [(''result'', JArr [JObj [(''title'', JStr ''x'')]]),
                                           (''result_summary'', JStr ''Found 1'')])\<rparr>"
       and v = "JArr [JObj [(''title'', JStr ''x'')]]" and ?s0.0 = "JStr ''Found 1''"
       and r = "[(''title'', JStr ''x'')]" and rs = "[]"
       and ys = "[JObj [(''title'', JStr ''x'')]]"
       and summary = "JStr ''Found 1''"
       and c = "JStr ''patents''" and cs = "[]" and s = "''Found 1''"]
  note database = question_request_and_rendering
    [where input = "''hi''" and ?now1.0 = 1 and ?now2.0 = 2 and ?now3.0 = 3
       and ?stamp1.0 = "(1, ''a'')" and ?stamp2.0 = "(2, ''b'')"
       and currentMode = "''database''" and q = "''hi''"
       and data = "JObj [(''result_summary'', JStr ''Found 0''),
                         (''collections_searched'', JArr [JStr ''patents''])]"
       and fr = "Inr \<lparr>ok = True, json = Inr (JObj [(''result_summary'', JStr ''Found 0''),
                                           (''collections_searched'', JArr [JStr ''patents''])])\<rparr>"
       and v = "JArr []" and ?s0.0 = "JStr ''Found 0''"
       and r = "[(''title'', JStr ''x'')]" and rs = "[]"
       and ys = "[]"
       and summary = "JStr ''Found 0\<newline>\<newline>Searched 1 collection(s): patents''"
       and c = "JStr ''patents''" and cs = "[]" and s = "''Found 0''"]
  have table: "formatResults_legacy [JObj [(''title'', JStr ''x'')]] (JStr ''Found 1'') =
      Inr (table_legacy [''title''] [JObj [(''title'', JStr ''x'')]] (JStr ''Found 1''))"
    using legacy_and_search by (simp add: uniq_def)
  have plain: "enhancedSummary ''serpapi''
      (JObj [(''result'', JArr [JObj [(''title'', JStr ''x'')]]),
             (''result_summary'', JStr ''Found 1'')]) = Inr (JStr ''Found 1'')"
    using legacy_and_search by simp
  have extended: "enhancedSummary ''database''
      (JObj [(''result_summary'', JStr ''Found 0''),
             (''collections_searched'', JArr [JStr ''patents''])])
      = Inr (JStr ''Found 0\<newline>\<newline>Searched 1 collection(s): patents'')"
    using database by (simp add: dec_digit)
  show ?thesis
    using legacy_and_search database
    by (simp add: table plain extended trim_def js_whitespace_def message_id_def messageId_enh_def
        dec_digit cong: sum.case_cong)
qed

text \<open>
  The claim as stated renders the \<^verbatim>\<open>result_summary\<close> field as the summary and reads
  \<^verbatim>\<open>patents\<close> in search mode only. In database mode the enhanced script appends the
  collections searched to the summary; it takes the summary from the \<^verbatim>\<open>summary\<close> field
  when there is no \<^verbatim>\<open>result_summary\<close>; and it reads \<^verbatim>\<open>patents\<close>, before
  \<^verbatim>\<open>sample_result\<close>, in database mode too.
\<close>

theorem summary_and_results_differ_from_spec:
  "enhancedSummary ''database''
     (JObj [(''result'', JArr [JObj [(''title'', JStr ''x'')]]),
            (''result_summary'', JStr ''Found 1''),
            (''collections_searched'', JArr [JStr ''patents''])])
     = Inr (JStr ''Found 1\<newline>\<newline>Searched 1 collection(s): patents'')
   \<and> spec_summary
     (JObj [(''result'', JArr [JObj [(''title'', JStr ''x'')]]),
            (''result_summary'', JStr ''Found 1''),
            (''collections_searched'', JArr [JStr ''patents''])])
     = JStr ''Found 1''
   \<and> enhancedSummary ''serpapi''
     (JObj [(''result'', JArr [JObj [(''title'', JStr ''x'')]]), (''summary'', JStr ''Found 1'')])
     = Inr (JStr ''Found 1'')
   \<and> spec_summary
     (JObj [(''result'', JArr [JObj [(''title'', JStr ''x'')]]), (''summary'', JStr ''Found 1'')])
     = JUndefined
   \<and> results_of_enh (JObj [(''patents'', JArr [JObj [(''title'', JStr ''p'')]]),
                           (''sample_result'', JArr [JObj [(''title'', JStr ''s'')]])])
     = JArr [JObj [(''title'', JStr ''p'')]]
   \<and> spec_results ''database'' (JObj [(''patents'', JArr [JObj [(''title'', JStr ''p'')]]),
                                       (''sample_result'', JArr [JObj [(''title'', JStr ''s'')]])])
     = JArr [JObj [(''title'', JStr ''s'')]]"
  by (simp add: enhancedSummary_def summary_of_enh_def collectionsSearched_of_def js_or_def
      js_includes_def js_array_join_def spec_summary_def results_of_enh_def spec_results_def
      present_def dec_digit Let_def)

subsection \<open>Instances\<close>

lemma downloadCSV_enh_export_witness:
  "[[(''a'', JNum 1)], [(''b'', JNum 2)]] \<noteq> []
   \<and> (\<exists>hs. downloadCSV_enh 5 (map JObj [[(''a'', JNum 1)], [(''b'', JNum 2)]]) =
           Inr [Download (csv_filename 5)
                  (js_join ''\<newline>'' (js_join '','' hs #
                     map (\<lambda>r. js_join '','' (map (\<lambda>h. [dquote] @ double_quotes (csv_value (JObj r) h) @ [dquote]) hs))
                       [[(''a'', JNum 1)], [(''b'', JNum 2)]])),
                Toast ''CSV downloaded successfully!'' ''success'']
         \<and> set hs = {''a'', ''b''} \<and> distinct hs)"
  using downloadCSV_enh_export [of "[[(''a'', JNum 1)], [(''b'', JNum 2)]]" 5]
  by (simp add: insert_commute)

lemma escapeHtml_legacy_safe_witness:
  "escapeHtml_legacy (JStr ''a<b&c'') = ''a&lt;b&amp;c''
   \<and> set ''a&lt;b&amp;c'' \<inter> {CHR ''<'', CHR ''>'', dquote, squote} = {}
   \<and> amp_ok ''a&lt;b&amp;c''"
proof -
  have e: "escapeHtml_legacy (JStr ''a<b&c'') = ''a&lt;b&amp;c''"
    by (simp add: escapeHtml_legacy_def replace_char_def dquote_def squote_def)
  show ?thesis
    using escapeHtml_legacy_safe [of "JStr ''a<b&c''"] unfolding e by simp
qed

lemma uniq_first_occurrence_witness:
  "uniq [''b'', ''a'', ''b'', ''c'', ''a''] = [''b'', ''a'', ''c'']"
proof -
  have "map (\<lambda>i. [''b'', ''a'', ''b'', ''c'', ''a''] ! i)
          (filter (\<lambda>i. [''b'', ''a'', ''b'', ''c'', ''a''] ! i
                        \<notin> set (take i [''b'', ''a'', ''b'', ''c'', ''a'']))
             [0..<length [''b'', ''a'', ''b'', ''c'', ''a'']])
        = [''b'', ''a'', ''c'']"
    by (simp add: upt_rec nth_Cons')
  then show ?thesis
    using uniq_first_occurrence [of "[''b'', ''a'', ''b'', ''c'', ''a'']"] by simp
qed

end
